theory Spec2Isabelle
  imports Complex_Main "HOL-Library.Word" "HOL-Library.Sublist"
begin

section \<open>Data crossing the driver boundary\<close>

text \<open>
  \<^verbatim>\<open>structures.py\<close>: the two C structures filled in by the SPS30 driver. A
  \<^verbatim>\<open>c_float\<close> is modelled as a real number (no claim below depends on rounding),
  a \<^verbatim>\<open>c_uint8\<close> as an 8-bit word.
\<close>

record SPS30_Measurement =
  mc_1p0 :: real
  mc_2p5 :: real
  mc_4p0 :: real
  mc_10p0 :: real
  nc_0p5 :: real
  nc_1p0 :: real
  nc_2p5 :: real
  nc_4p0 :: real
  nc_10p0 :: real
  typical_particle_size :: real

record SPS30_VersionInfo =
  firmware_major :: "8 word"
  firmware_minor :: "8 word"
  hardware_revision :: "8 word"
  shdlc_major :: "8 word"
  shdlc_minor :: "8 word"

text \<open>
  \<^verbatim>\<open>exceptions.py\<close>: a \<^verbatim>\<open>SensorError\<close> carries the sensor name, a message, an
  optional error code and a dictionary of details. The two subclasses are
  constructors of the exception type, next to the built-in exceptions that
  the package raises or that its statements can raise: \<^verbatim>\<open>UnicodeDecodeError\<close>
  carries the bytes that do not decode, \<^verbatim>\<open>ArgumentError\<close> is the one of
  \<^verbatim>\<open>ctypes\<close> for an argument that does not convert.
\<close>

datatype detail = DStr string | DInt int | DFloat real

type_synonym details = "(string \<times> detail) list"

datatype exn =
    InitializationError string string "int option" details
  | ReadError string string "int option" details
  | ValueError string
  | NotImplementedError string
  | KeyError string
  | AssertionError
  | UnicodeDecodeError string
  | ArgumentError

text \<open>
  The functions of the shared library \<^verbatim>\<open>libsensirion.so\<close> that the package calls
  through \<^verbatim>\<open>ctypes\<close>, with the arguments passed by value.
\<close>

datatype call =
    sensirion_i2c_hal_init
  | stc3x_init int
  | stc3x_set_binary_gas int
  | stc3x_set_relative_humidity real
  | stc3x_set_temperature real
  | stc3x_measure_gas_concentration
  | stc3x_get_product_id
  | stc3x_forced_recalibration "16 word"
  | stc3x_enable_automatic_self_calibration
  | stc3x_disable_automatic_self_calibration
  | stc3x_enter_sleep_mode
  | stc3x_exit_sleep_mode
  | sht4x_init int
  | sht4x_measure_high_precision
  | sht4x_measure_medium_precision
  | sht4x_measure_lowest_precision
  | sht4x_serial_number
  | sht4x_soft_reset
  | sensirion_uart_open
  | sps30_probe
  | sps30_read_version
  | sps30_get_serial
  | sps30_set_fan_auto_cleaning_interval_days "8 word"
  | sps30_start_measurement
  | sps30_stop_measurement
  | sps30_read_measurement
  | sps30_sleep
  | sps30_wake_up
  | sps30_start_manual_fan_cleaning
  | sps30_get_fan_auto_cleaning_interval_days
  | sps30_reset
  | sensirion_uart_close

datatype level = DEBUG | INFO | WARNING | ERROR

text \<open>
  Everything the package does to the outside is an event: a call into the
  library, a blocking \<^verbatim>\<open>time.sleep\<close> (in milliseconds) or a log record (level,
  format string and the exceptions passed as arguments, kept unformatted).
  The world is the list of events so far, oldest first.
\<close>

datatype event = Call call | Sleep nat | Log level string "exn list"

type_synonym world = "event list"

text \<open>
  The library is an external collaborator. Its behaviour is a parameter:
  the status a call returns and what it writes to its output arguments,
  both as functions of the events so far. \<^verbatim>\<open>serial_out\<close> is the content of the
  character buffer handed to \<^verbatim>\<open>sps30_get_serial\<close>, as bytes.
\<close>

record driver =
  status :: "world \<Rightarrow> call \<Rightarrow> int"
  floats_out :: "world \<Rightarrow> call \<Rightarrow> real \<times> real"
  product_id_out :: "world \<Rightarrow> 32 word \<times> 64 word"
  serial_number_out :: "world \<Rightarrow> 32 word"
  version_out :: "world \<Rightarrow> SPS30_VersionInfo"
  serial_out :: "world \<Rightarrow> string"
  measurement_out :: "world \<Rightarrow> SPS30_Measurement"
  interval_out :: "world \<Rightarrow> 8 word"

definition lib_call :: "driver \<Rightarrow> world \<Rightarrow> call \<Rightarrow> int \<times> world" where
  "lib_call d w c = (status d w c, w @ [Call c])"

definition time_sleep :: "nat \<Rightarrow> world \<Rightarrow> world" where
  "time_sleep ms w = w @ [Sleep ms]"

definition logger :: "level \<Rightarrow> string \<Rightarrow> exn list \<Rightarrow> world \<Rightarrow> world" where
  "logger lv msg args w = w @ [Log lv msg args]"

text \<open>
  A method takes the object and the world and returns an exception or a
  value, together with the object and the world as they are when it returns
  or raises.
\<close>

type_synonym ('a, 's) outcome = "(exn + 'a) \<times> 's \<times> world"

subsection \<open>Formatting of integers in messages\<close>

definition digit_char :: "nat \<Rightarrow> char" where
  "digit_char k = ''0123456789ABCDEF'' ! (k mod 16)"

fun digits :: "nat \<Rightarrow> nat \<Rightarrow> string" where
  "digits b n =
     (if b < 2 \<or> n < b then [digit_char n]
      else digits b (n div b) @ [digit_char (n mod b)])"

definition str_int :: "int \<Rightarrow> string" where
  "str_int i = (if i < 0 then CHR ''-'' # digits 10 (nat (- i)) else digits 10 (nat i))"

subsection \<open>Values crossing \<^verbatim>\<open>ctypes\<close>\<close>

text \<open>
  A Python integer passed to a foreign function with no declared argument types
  converts when it fits a C \<^verbatim>\<open>long\<close> or \<^verbatim>\<open>unsigned long\<close> (64 bits here);
  otherwise the call raises \<^verbatim>\<open>ctypes.ArgumentError\<close> and the function is not
  entered.
\<close>

definition ctypes_int_convertible :: "int \<Rightarrow> bool" where
  "ctypes_int_convertible a = (- (2 ^ 63) \<le> a \<and> a < 2 ^ 64)"

text \<open>
  \<^verbatim>\<open>.value\<close> of a character array of \<^verbatim>\<open>n\<close> bytes: the bytes before the first
  zero byte.
\<close>

definition c_char_array_value :: "nat \<Rightarrow> string \<Rightarrow> string" where
  "c_char_array_value n buffer = takeWhile (\<lambda>c. c \<noteq> CHR 0x00) (take n buffer)"

text \<open>
  \<^verbatim>\<open>bytes.decode()\<close>: strict UTF-8. Well-formed sequences are those of the
  Unicode standard: no overlong forms, no surrogates, nothing above U+10FFFF.
  A decoded string is kept as its UTF-8 bytes.
\<close>

definition continuation :: "nat \<Rightarrow> bool" where
  "continuation b = (0x80 \<le> b \<and> b \<le> 0xBF)"

fun utf8_valid :: "nat list \<Rightarrow> bool" where
  "utf8_valid [] = True"
| "utf8_valid (b0 # bs) =
     (if b0 < 0x80 then utf8_valid bs
      else if 0xC2 \<le> b0 \<and> b0 \<le> 0xDF then
        (case bs of b1 # r \<Rightarrow> continuation b1 \<and> utf8_valid r | _ \<Rightarrow> False)
      else if 0xE0 \<le> b0 \<and> b0 \<le> 0xEF then
        (case bs of
           b1 # b2 # r \<Rightarrow>
             (if b0 = 0xE0 then 0xA0 \<le> b1 \<and> b1 \<le> 0xBF
              else if b0 = 0xED then 0x80 \<le> b1 \<and> b1 \<le> 0x9F
              else continuation b1)
             \<and> continuation b2 \<and> utf8_valid r
         | _ \<Rightarrow> False)
      else if 0xF0 \<le> b0 \<and> b0 \<le> 0xF4 then
        (case bs of
           b1 # b2 # b3 # r \<Rightarrow>
             (if b0 = 0xF0 then 0x90 \<le> b1 \<and> b1 \<le> 0xBF
              else if b0 = 0xF4 then 0x80 \<le> b1 \<and> b1 \<le> 0x8F
              else continuation b1)
             \<and> continuation b2 \<and> continuation b3 \<and> utf8_valid r
         | _ \<Rightarrow> False)
      else False)"

definition bytes_decode :: "string \<Rightarrow> exn + string" where
  "bytes_decode bs =
     (if utf8_valid (map of_char bs) then Inr bs else Inl (UnicodeDecodeError bs))"

section \<open>STC31-C: the CO2 sensor\<close>

record STC31CSensor =
  initialized :: bool
  sleeping :: bool
  enable_asc :: bool

definition STC31CSensor_new :: "bool \<Rightarrow> STC31CSensor" where
  "STC31CSensor_new self_calibration =
     \<lparr>initialized = False, sleeping = False, enable_asc = self_calibration\<rparr>"

definition STC31CSensor_enable_automatic_self_calibration ::
  "driver \<Rightarrow> STC31CSensor \<Rightarrow> world \<Rightarrow> (unit, STC31CSensor) outcome" where
  "STC31CSensor_enable_automatic_self_calibration d s w =
     (let (ret, w1) = lib_call d w stc3x_enable_automatic_self_calibration in
      if ret \<noteq> 0 then
        (Inl (ReadError ''STC31-C'' ''Enabling automatic self-calibration failed'' (Some ret)
               [(''operation'', DStr ''stc3x_enable_automatic_self_calibration'')]), s, w1)
      else (Inr (), s, time_sleep 10 w1))"

definition STC31CSensor_disable_automatic_self_calibration ::
  "driver \<Rightarrow> STC31CSensor \<Rightarrow> world \<Rightarrow> (unit, STC31CSensor) outcome" where
  "STC31CSensor_disable_automatic_self_calibration d s w =
     (let (ret, w1) = lib_call d w stc3x_disable_automatic_self_calibration in
      if ret \<noteq> 0 then
        (Inl (ReadError ''STC31-C'' ''Disabling automatic self-calibration failed'' (Some ret)
               [(''operation'', DStr ''stc3x_disable_automatic_self_calibration'')]), s, w1)
      else (Inr (), s, time_sleep 10 w1))"

definition STC31CSensor_initialize ::
  "driver \<Rightarrow> STC31CSensor \<Rightarrow> world \<Rightarrow> (unit, STC31CSensor) outcome" where
  "STC31CSensor_initialize d s w =
     (let (ret, w1) = lib_call d w sensirion_i2c_hal_init in
      if ret \<noteq> 0 then
        (Inl (InitializationError ''STC31-C''
               (''Failed to initialize I'' @ [CHR 0xC2, CHR 0xB2] @ ''C interface'') (Some ret)
               [(''operation'', DStr ''sensirion_i2c_hal_init'')]), s, w1)
      else
        let (void, w2) = lib_call d w1 (stc3x_init 0x29);
            (ret, w3) = lib_call d w2 (stc3x_set_binary_gas 19) in
        if ret \<noteq> 0 then
          (Inl (InitializationError ''STC31-C'' ''Failed to set binary gas configuration''
                 (Some ret)
                 [(''operation'', DStr ''stc3x_set_binary_gas''), (''gas_config'', DInt 19)]),
           s, w3)
        else
          (case (if enable_asc s then STC31CSensor_enable_automatic_self_calibration d s w3
                 else STC31CSensor_disable_automatic_self_calibration d s w3) of
             (Inl e, s4, w4) \<Rightarrow> (Inl e, s4, w4)
           | (Inr u, s4, w4) \<Rightarrow>
               (Inr (), s4\<lparr>initialized := True, sleeping := False\<rparr>, time_sleep 50 w4)))"

text \<open>
  \<^verbatim>\<open>read\<close>: the volume-percent reading is multiplied by 10000; the result is
  the dictionary with the keys in the order the source writes them.
\<close>

definition STC31CSensor_read ::
  "driver \<Rightarrow> real option \<Rightarrow> real option \<Rightarrow> STC31CSensor \<Rightarrow> world
    \<Rightarrow> ((string \<times> real) list, STC31CSensor) outcome" where
  "STC31CSensor_read d temperature humidity s w =
     (if \<not> initialized s then
        (Inl (ReadError ''STC31-C'' ''Sensor not initialized'' (Some (- 1))
               [(''operation'', DStr ''read'')]), s, w)
      else case (temperature, humidity) of
        (None, h) \<Rightarrow>
          (Inl (ValueError
             ''STC31CSensor.read() requires 'temperature' and 'humidity' values.''), s, w)
      | (Some t, None) \<Rightarrow>
          (Inl (ValueError
             ''STC31CSensor.read() requires 'temperature' and 'humidity' values.''), s, w)
      | (Some t, Some h) \<Rightarrow>
          (let (error, w1) = lib_call d w (stc3x_set_relative_humidity h) in
           if error \<noteq> 0 then
             (Inl (ReadError ''STC31-C'' ''Failed to set relative humidity for compensation''
                    (Some error)
                    [(''operation'', DStr ''stc3x_set_relative_humidity''),
                     (''humidity'', DFloat h)]), s, w1)
           else
             let (error, w2) = lib_call d w1 (stc3x_set_temperature t) in
             if error \<noteq> 0 then
               (Inl (ReadError ''STC31-C'' ''Failed to set temperature for compensation''
                      (Some error)
                      [(''operation'', DStr ''stc3x_set_temperature''),
                       (''temperature'', DFloat t)]), s, w2)
             else
               let (co2_vol, temperature_out) = floats_out d w2 stc3x_measure_gas_concentration;
                   (ret, w3) = lib_call d w2 stc3x_measure_gas_concentration in
               if ret \<noteq> 0 then
                 (Inl (ReadError ''STC31-C'' ''Failed to read gas concentration'' (Some ret)
                        [(''operation'', DStr ''stc3x_measure_gas_concentration'')]), s, w3)
               else
                 (Inr [(''co2_concentration'', co2_vol * 10000),
                       (''temperature'', temperature_out)], s, w3)))"

definition STC31CSensor_get_info ::
  "driver \<Rightarrow> STC31CSensor \<Rightarrow> world \<Rightarrow> ((string \<times> detail) list, STC31CSensor) outcome" where
  "STC31CSensor_get_info d s w =
     (let (product_id, serial_number) = product_id_out d w;
          (error, w1) = lib_call d w stc3x_get_product_id in
      if error \<noteq> 0 then
        (Inl (ReadError ''STC31-C'' ''Failed to retrieve product info'' (Some error)
               [(''operation'', DStr ''stc3x_get_product_id'')]), s, w1)
      else
        (Inr [(''product_id'', DInt (uint product_id)),
              (''serial_number'', DStr (digits 16 (unat serial_number)))], s, w1))"

definition STC31CSensor_forced_recalibration ::
  "driver \<Rightarrow> int \<Rightarrow> STC31CSensor \<Rightarrow> world \<Rightarrow> (unit, STC31CSensor) outcome" where
  "STC31CSensor_forced_recalibration d reference_concentration s w =
     (let (ret, w1) =
            lib_call d w (stc3x_forced_recalibration (word_of_int reference_concentration)) in
      if ret \<noteq> 0 then
        (Inl (ReadError ''STC31-C'' ''Forced recalibration failed'' (Some ret)
               [(''operation'', DStr ''stc3x_forced_recalibration''),
                (''reference'', DInt reference_concentration)]), s, w1)
      else (Inr (), s, w1))"

definition STC31CSensor_sleep ::
  "driver \<Rightarrow> STC31CSensor \<Rightarrow> world \<Rightarrow> (unit, STC31CSensor) outcome" where
  "STC31CSensor_sleep d s w =
     (let (ret, w1) = lib_call d w stc3x_enter_sleep_mode in
      if ret \<noteq> 0 then
        (Inl (ReadError ''STC31-C'' ''Entering sleep mode failed'' (Some ret)
               [(''operation'', DStr ''stc3x_enter_sleep_mode'')]), s, w1)
      else (Inr (), s\<lparr>sleeping := True\<rparr>, w1))"

definition STC31CSensor_wake_up ::
  "driver \<Rightarrow> STC31CSensor \<Rightarrow> world \<Rightarrow> (unit, STC31CSensor) outcome" where
  "STC31CSensor_wake_up d s w =
     (let (ret, w1) = lib_call d w stc3x_exit_sleep_mode in
      if ret \<noteq> 0 then
        (Inl (ReadError ''STC31-C'' ''Exiting sleep mode failed'' (Some ret)
               [(''operation'', DStr ''stc3x_exit_sleep_mode'')]), s, w1)
      else (Inr (), s\<lparr>sleeping := False\<rparr>, w1))"

section \<open>SHTC3: the temperature and humidity sensor\<close>

record SHTC3Sensor =
  i2c_address :: int
  initialized :: bool
  sleeping :: bool

definition SHTC3Sensor_new :: "int \<Rightarrow> SHTC3Sensor" where
  "SHTC3Sensor_new addr = \<lparr>i2c_address = addr, initialized = False, sleeping = False\<rparr>"

text \<open>
  \<^verbatim>\<open>initialize\<close> passes the address as a plain Python integer and does not look
  at what \<^verbatim>\<open>sht4x_init\<close> returns.
\<close>

definition SHTC3Sensor_initialize ::
  "driver \<Rightarrow> SHTC3Sensor \<Rightarrow> world \<Rightarrow> (unit, SHTC3Sensor) outcome" where
  "SHTC3Sensor_initialize d s w =
     (if \<not> ctypes_int_convertible (i2c_address s) then (Inl ArgumentError, s, w)
      else
        let (void, w1) = lib_call d w (sht4x_init (i2c_address s)) in
        (Inr (), s\<lparr>SHTC3Sensor.initialized := True\<rparr>, w1))"

definition measure_call :: "string \<Rightarrow> call option" where
  "measure_call mode =
     (if mode = ''high'' then Some sht4x_measure_high_precision
      else if mode = ''medium'' then Some sht4x_measure_medium_precision
      else if mode = ''lowest'' then Some sht4x_measure_lowest_precision
      else None)"

definition SHTC3Sensor_read ::
  "driver \<Rightarrow> real option \<Rightarrow> real option \<Rightarrow> string \<Rightarrow> SHTC3Sensor \<Rightarrow> world
    \<Rightarrow> ((string \<times> real) list, SHTC3Sensor) outcome" where
  "SHTC3Sensor_read d temperature humidity mode s w =
     (if \<not> SHTC3Sensor.initialized s then
        (Inl (ReadError ''SHTC3'' ''Sensor not initialized'' (Some (- 1))
               [(''operation'', DStr ''read'')]), s, w)
      else case measure_call mode of
        None \<Rightarrow>
          (Inl (ValueError ''Invalid mode. Choose 'high', 'medium', or 'lowest'.''), s, w)
      | Some c \<Rightarrow>
          (let (temp_val, hum_val) = floats_out d w c;
               (ret, w1) = lib_call d w c in
           if ret \<noteq> 0 then
             (Inl (ReadError ''SHTC3''
                    (''Failed to read temperature/humidity in '' @ mode @ '' precision mode'')
                    (Some ret)
                    [(''operation'', DStr (''sht4x_measure_'' @ mode @ ''_precision''))]),
              s, w1)
           else
             (Inr [(''temperature'', temp_val), (''relative_humidity'', hum_val)], s, w1)))"

definition SHTC3Sensor_get_info ::
  "driver \<Rightarrow> SHTC3Sensor \<Rightarrow> world \<Rightarrow> ((string \<times> detail) list, SHTC3Sensor) outcome" where
  "SHTC3Sensor_get_info d s w =
     (if \<not> SHTC3Sensor.initialized s then
        (Inl (ReadError ''SHTC3'' ''Sensor not initialized'' (Some (- 1))
               [(''operation'', DStr ''get_info'')]), s, w)
      else
        let serial_number = serial_number_out d w;
            (error, w1) = lib_call d w sht4x_serial_number in
        if error \<noteq> 0 then
          (Inl (ReadError ''SHTC3'' ''Failed to retrieve serial number'' (Some error)
                 [(''operation'', DStr ''sht4x_serial_number'')]), s, w1)
        else (Inr [(''serial_number'', DInt (uint serial_number))], s, w1))"

definition SHTC3Sensor_soft_reset ::
  "driver \<Rightarrow> SHTC3Sensor \<Rightarrow> world \<Rightarrow> (unit, SHTC3Sensor) outcome" where
  "SHTC3Sensor_soft_reset d s w =
     (if \<not> SHTC3Sensor.initialized s then
        (Inl (ReadError ''SHTC3'' ''Sensor not initialized'' (Some (- 1))
               [(''operation'', DStr ''soft_reset'')]), s, w)
      else
        let (ret, w1) = lib_call d w sht4x_soft_reset in
        if ret \<noteq> 0 then
          (Inl (ReadError ''SHTC3'' ''Soft reset failed'' (Some ret)
                 [(''operation'', DStr ''sht4x_soft_reset'')]), s, w1)
        else (Inr (), s, time_sleep 50 w1))"

text \<open>The bodies of \<^verbatim>\<open>sleep\<close> and \<^verbatim>\<open>wake_up\<close> are \<^verbatim>\<open>pass\<close>.\<close>

definition SHTC3Sensor_sleep ::
  "driver \<Rightarrow> SHTC3Sensor \<Rightarrow> world \<Rightarrow> (unit, SHTC3Sensor) outcome" where
  "SHTC3Sensor_sleep d s w = (Inr (), s, w)"

definition SHTC3Sensor_wake_up ::
  "driver \<Rightarrow> SHTC3Sensor \<Rightarrow> world \<Rightarrow> (unit, SHTC3Sensor) outcome" where
  "SHTC3Sensor_wake_up d s w = (Inr (), s, w)"

text \<open>
  \<^verbatim>\<open>SensorBase.sleep\<close> and \<^verbatim>\<open>SensorBase.wake_up\<close>, which \<^verbatim>\<open>SHTC3Sensor\<close> overrides.
\<close>

definition SensorBase_sleep :: "driver \<Rightarrow> 's \<Rightarrow> world \<Rightarrow> (unit, 's) outcome" where
  "SensorBase_sleep d s w =
     (Inl (NotImplementedError ''Sleep mode not supported by this sensor''), s, w)"

definition SensorBase_wake_up :: "driver \<Rightarrow> 's \<Rightarrow> world \<Rightarrow> (unit, 's) outcome" where
  "SensorBase_wake_up d s w =
     (Inl (NotImplementedError ''Wake-up not supported by this sensor''), s, w)"

section \<open>SPS30: the particulate matter sensor\<close>

record SPS30Sensor =
  version_info :: "SPS30_VersionInfo option"
  serial_number :: string
  initialized :: bool
  uart_open :: bool
  measurement_started :: bool
  sleeping :: bool

definition SPS30Sensor_new :: SPS30Sensor where
  "SPS30Sensor_new =
     \<lparr>version_info = None, serial_number = ''Unknown'', initialized = False,
      uart_open = False, measurement_started = False, sleeping = False\<rparr>"

definition SPS30_MAX_SERIAL_LEN :: nat where
  "SPS30_MAX_SERIAL_LEN = 32"

definition SPS30Sensor_initialize ::
  "driver \<Rightarrow> int \<Rightarrow> SPS30Sensor \<Rightarrow> world \<Rightarrow> (unit, SPS30Sensor) outcome" where
  "SPS30Sensor_initialize d auto_clean_days s w =
     (let (ret, w1) = lib_call d w sensirion_uart_open in
      if ret \<noteq> 0 then
        (Inl (InitializationError ''SPS30'' ''Failed to initialize UART'' (Some ret)
               [(''operation'', DStr ''sensirion_uart_open'')]), s, w1)
      else
        let s1 = s\<lparr>uart_open := True\<rparr>;
            (ret, w2) = lib_call d w1 sps30_probe in
        if ret \<noteq> 0 then
          (Inl (InitializationError ''SPS30'' ''Failed to probe SPS30 sensor'' (Some ret)
                 [(''operation'', DStr ''sps30_probe'')]), s1, w2)
        else
          let version = version_out d w2;
              (ret, w3) = lib_call d w2 sps30_read_version in
          if ret \<noteq> 0 then
            (Inl (ReadError ''SPS30'' ''Failed to retrieve version info'' (Some ret)
                   [(''operation'', DStr ''sps30_read_version'')]), s1, w3)
          else
            let s3 = s1\<lparr>version_info := Some version\<rparr>;
                serial_buffer = serial_out d w3;
                (ret, w4) = lib_call d w3 sps30_get_serial in
            if ret \<noteq> 0 then
              (Inl (ReadError ''SPS30'' ''Failed to retrieve serial number'' (Some ret)
                     [(''operation'', DStr ''sps30_get_serial'')]), s3, w4)
            else case bytes_decode (c_char_array_value SPS30_MAX_SERIAL_LEN serial_buffer) of
              Inl e \<Rightarrow> (Inl e, s3, w4)
            | Inr serial \<Rightarrow>
              let s4 = s3\<lparr>serial_number := serial\<rparr>;
                  (ret, w5) = lib_call d w4
                     (sps30_set_fan_auto_cleaning_interval_days (word_of_int auto_clean_days)) in
              if ret \<noteq> 0 then
                (Inl (ReadError ''SPS30''
                       (''Could not set auto-clean interval to '' @ str_int auto_clean_days
                          @ '' day(s)'')
                       (Some ret)
                       [(''operation'', DStr ''sps30_set_fan_auto_cleaning_interval_days'')]),
                 s4, w5)
              else
                let (ret, w6) = lib_call d w5 sps30_start_measurement in
                if ret \<noteq> 0 then
                  (Inl (InitializationError ''SPS30'' ''Failed to start measurements'' (Some ret)
                         [(''operation'', DStr ''sps30_start_measurement'')]), s4, w6)
                else
                  (Inr (),
                   s4\<lparr>measurement_started := True, initialized := True, sleeping := False\<rparr>,
                   time_sleep 1100 w6))"

definition SPS30Sensor_stop_measurement ::
  "driver \<Rightarrow> SPS30Sensor \<Rightarrow> world \<Rightarrow> (unit, SPS30Sensor) outcome" where
  "SPS30Sensor_stop_measurement d s w =
     (if \<not> measurement_started s then
        (Inl (ReadError ''SPS30'' ''Cannot stop measurement: measurement not started''
               (Some (- 1)) [(''operation'', DStr ''sps30_stop_measurement'')]), s, w)
      else
        let (ret, w1) = lib_call d w sps30_stop_measurement in
        if ret \<noteq> 0 then
          (Inl (ReadError ''SPS30'' ''Stopping measurement failed'' (Some ret)
                 [(''operation'', DStr ''sps30_stop_measurement'')]), s, w1)
        else (Inr (), s\<lparr>measurement_started := False\<rparr>, w1))"

definition SPS30Sensor_read ::
  "driver \<Rightarrow> real option \<Rightarrow> real option \<Rightarrow> SPS30Sensor \<Rightarrow> world
    \<Rightarrow> ((string \<times> real) list, SPS30Sensor) outcome" where
  "SPS30Sensor_read d temperature humidity s w =
     (if \<not> initialized s \<or> \<not> measurement_started s then
        (Inl (ReadError ''SPS30''
               ''Cannot read data: sensor not properly initialized or measurement not started''
               (Some (- 1)) [(''operation'', DStr ''read'')]), s, w)
      else
        let measurement = measurement_out d w;
            (ret, w1) = lib_call d w sps30_read_measurement in
        if ret < 0 then
          (if ret = - 1 then
             (Inl (ReadError ''SPS30''
                    ''Not enough data available (the sensor needs more time).'' (Some ret)
                    [(''operation'', DStr ''sps30_read_measurement'')]), s, w1)
           else
             (Inl (ReadError ''SPS30'' ''Failed to read particulate matter data'' (Some ret)
                    [(''operation'', DStr ''sps30_read_measurement'')]), s, w1))
        else
          (Inr [(''pm1.0'', mc_1p0 measurement),
                (''pm2.5'', mc_2p5 measurement),
                (''pm4.0'', mc_4p0 measurement),
                (''pm10.0'', mc_10p0 measurement),
                (''nc0.5'', nc_0p5 measurement),
                (''nc1.0'', nc_1p0 measurement),
                (''nc2.5'', nc_2p5 measurement),
                (''nc4.0'', nc_4p0 measurement),
                (''nc10.0'', nc_10p0 measurement),
                (''typical_particle_size'', typical_particle_size measurement)], s, w1))"

text \<open>
  The firmware gate of \<^verbatim>\<open>sleep\<close> and \<^verbatim>\<open>wake_up\<close>:
  \<^verbatim>\<open>self.version_info is None or self.version_info.firmware_major < 2\<close>.
\<close>

definition sleep_unsupported :: "SPS30Sensor \<Rightarrow> bool" where
  "sleep_unsupported s =
     (case version_info s of None \<Rightarrow> True | Some v \<Rightarrow> firmware_major v < 2)"

definition SPS30Sensor_sleep ::
  "driver \<Rightarrow> SPS30Sensor \<Rightarrow> world \<Rightarrow> (unit, SPS30Sensor) outcome" where
  "SPS30Sensor_sleep d s w =
     (if sleep_unsupported s then (Inr (), s, w)
      else if \<not> initialized s then
        (Inl (ReadError ''SPS30'' ''Sensor not initialized'' (Some (- 1))
               [(''operation'', DStr ''sleep'')]), s, w)
      else if measurement_started s then
        (Inl (ReadError ''SPS30'' ''Stop measurement before sleeping'' (Some (- 1))
               [(''operation'', DStr ''sleep'')]), s, w)
      else
        let (ret, w1) = lib_call d w sps30_sleep in
        if ret \<noteq> 0 then
          (Inl (ReadError ''SPS30'' ''Entering sleep failed'' (Some ret)
                 [(''operation'', DStr ''sps30_sleep'')]), s, w1)
        else (Inr (), s\<lparr>sleeping := True\<rparr>, w1))"

definition SPS30Sensor_wake_up ::
  "driver \<Rightarrow> SPS30Sensor \<Rightarrow> world \<Rightarrow> (unit, SPS30Sensor) outcome" where
  "SPS30Sensor_wake_up d s w =
     (if sleep_unsupported s then (Inr (), s, w)
      else if \<not> initialized s then
        (Inl (ReadError ''SPS30'' ''Sensor not initialized'' (Some (- 1))
               [(''operation'', DStr ''wake_up'')]), s, w)
      else if \<not> sleeping s then
        (Inl (ReadError ''SPS30'' ''Sensor is not sleeping'' (Some (- 1))
               [(''operation'', DStr ''wake_up'')]), s, w)
      else
        let (ret, w1) = lib_call d w sps30_wake_up in
        if ret \<noteq> 0 then
          (Inl (ReadError ''SPS30'' ''Waking up from sleep failed'' (Some ret)
                 [(''operation'', DStr ''sps30_wake_up'')]), s, w1)
        else (Inr (), s\<lparr>sleeping := False\<rparr>, w1))"

definition SPS30Sensor_start_manual_fan_cleaning ::
  "driver \<Rightarrow> SPS30Sensor \<Rightarrow> world \<Rightarrow> (unit, SPS30Sensor) outcome" where
  "SPS30Sensor_start_manual_fan_cleaning d s w =
     (if \<not> measurement_started s then
        (Inl (ReadError ''SPS30''
               ''Cannot perform manual fan cleaning: measurement not started'' (Some (- 1))
               [(''operation'', DStr ''sps30_start_manual_fan_cleaning'')]), s, w)
      else
        let (ret, w1) = lib_call d w sps30_start_manual_fan_cleaning in
        if ret \<noteq> 0 then
          (Inl (ReadError ''SPS30'' ''Manual fan cleaning failed'' (Some ret)
                 [(''operation'', DStr ''sps30_start_manual_fan_cleaning'')]), s, w1)
        else (Inr (), s, w1))"

definition SPS30Sensor_set_fan_auto_cleaning_interval_days ::
  "driver \<Rightarrow> int \<Rightarrow> SPS30Sensor \<Rightarrow> world \<Rightarrow> (unit, SPS30Sensor) outcome" where
  "SPS30Sensor_set_fan_auto_cleaning_interval_days d days s w =
     (let (ret, w1) =
            lib_call d w (sps30_set_fan_auto_cleaning_interval_days (word_of_int days)) in
      if ret \<noteq> 0 then
        (Inl (ReadError ''SPS30''
               (''Failed to set auto-cleaning interval to '' @ str_int days @ '' day(s)'')
               (Some ret)
               [(''operation'', DStr ''sps30_set_fan_auto_cleaning_interval_days'')]), s, w1)
      else (Inr (), s, w1))"

definition SPS30Sensor_get_fan_auto_cleaning_interval_days ::
  "driver \<Rightarrow> SPS30Sensor \<Rightarrow> world \<Rightarrow> (int, SPS30Sensor) outcome" where
  "SPS30Sensor_get_fan_auto_cleaning_interval_days d s w =
     (let interval_days = interval_out d w;
          (ret, w1) = lib_call d w sps30_get_fan_auto_cleaning_interval_days in
      if ret \<noteq> 0 then
        (Inl (ReadError ''SPS30'' ''Failed to get auto-cleaning interval (days)'' (Some ret)
               [(''operation'', DStr ''sps30_get_fan_auto_cleaning_interval_days'')]), s, w1)
      else (Inr (uint interval_days), s, w1))"

definition SPS30Sensor_reset ::
  "driver \<Rightarrow> SPS30Sensor \<Rightarrow> world \<Rightarrow> (unit, SPS30Sensor) outcome" where
  "SPS30Sensor_reset d s w =
     (let (ret, w1) = lib_call d w sps30_reset in
      if ret \<noteq> 0 then
        (Inl (ReadError ''SPS30'' ''Failed to reset sensor'' (Some ret)
               [(''operation'', DStr ''sps30_reset'')]), s, w1)
      else (Inr (), s, w1))"

definition SPS30Sensor_close ::
  "driver \<Rightarrow> SPS30Sensor \<Rightarrow> world \<Rightarrow> (unit, SPS30Sensor) outcome" where
  "SPS30Sensor_close d s w =
     (let (ret, w1) = lib_call d w sensirion_uart_close in
      if ret \<noteq> 0 then
        (Inl (ReadError ''SPS30'' ''Failed to close UART'' (Some ret)
               [(''operation'', DStr ''sensirion_uart_close'')]), s, w1)
      else (Inr (), s\<lparr>uart_open := False\<rparr>, w1))"

definition SPS30Sensor_get_info ::
  "driver \<Rightarrow> SPS30Sensor \<Rightarrow> world \<Rightarrow> ((string \<times> detail) list, SPS30Sensor) outcome" where
  "SPS30Sensor_get_info d s w =
     (Inr ((case version_info s of
              Some v \<Rightarrow>
                [(''firmware_version'',
                    DStr (str_int (uint (firmware_major v)) @ ''.''
                          @ str_int (uint (firmware_minor v)))),
                 (''hardware_revision'', DInt (uint (hardware_revision v))),
                 (''shdlc_version'',
                    DStr (str_int (uint (shdlc_major v)) @ ''.''
                          @ str_int (uint (shdlc_minor v))))]
            | None \<Rightarrow>
                [(''firmware_version'', DStr ''Unknown''),
                 (''hardware_revision'', DInt (- 1)),
                 (''shdlc_version'', DStr ''Unknown'')])
           @ [(''serial_number'', DStr (serial_number s))]), s, w)"

section \<open>SensorManager: the coordinator\<close>

record SensorManager =
  enable_stc31c :: bool
  enable_shtc3 :: bool
  enable_sps30 :: bool
  stc31c :: "STC31CSensor option"
  shtc3 :: "SHTC3Sensor option"
  sps30 :: "SPS30Sensor option"

text \<open>
  A method call on a sensor owned by the manager, after
  \<^verbatim>\<open>assert self.<sensor> is not None\<close>: the sensor object is updated in place.
\<close>

definition on_stc31c ::
  "(STC31CSensor \<Rightarrow> world \<Rightarrow> ('a, STC31CSensor) outcome)
    \<Rightarrow> SensorManager \<Rightarrow> world \<Rightarrow> ('a, SensorManager) outcome" where
  "on_stc31c f m w =
     (case stc31c m of
        None \<Rightarrow> (Inl AssertionError, m, w)
      | Some s \<Rightarrow> (case f s w of (r, s', w') \<Rightarrow> (r, m\<lparr>stc31c := Some s'\<rparr>, w')))"

definition on_shtc3 ::
  "(SHTC3Sensor \<Rightarrow> world \<Rightarrow> ('a, SHTC3Sensor) outcome)
    \<Rightarrow> SensorManager \<Rightarrow> world \<Rightarrow> ('a, SensorManager) outcome" where
  "on_shtc3 f m w =
     (case shtc3 m of
        None \<Rightarrow> (Inl AssertionError, m, w)
      | Some s \<Rightarrow> (case f s w of (r, s', w') \<Rightarrow> (r, m\<lparr>shtc3 := Some s'\<rparr>, w')))"

definition on_sps30 ::
  "(SPS30Sensor \<Rightarrow> world \<Rightarrow> ('a, SPS30Sensor) outcome)
    \<Rightarrow> SensorManager \<Rightarrow> world \<Rightarrow> ('a, SensorManager) outcome" where
  "on_sps30 f m w =
     (case sps30 m of
        None \<Rightarrow> (Inl AssertionError, m, w)
      | Some s \<Rightarrow> (case f s w of (r, s', w') \<Rightarrow> (r, m\<lparr>sps30 := Some s'\<rparr>, w')))"

subsection \<open>Construction\<close>

text \<open>
  The first half of \<^verbatim>\<open>__init__\<close>: the dependency check with its log record,
  the three flags and the three sensor objects. Loading the shared library in
  the constructors of the sensors is taken to succeed.
\<close>

definition SensorManager_fields ::
  "bool \<Rightarrow> bool \<Rightarrow> bool \<Rightarrow> bool \<Rightarrow> world \<Rightarrow> SensorManager \<times> world" where
  "SensorManager_fields co2_self_calibration en_stc31c en_shtc3 en_sps30 w =
     (let (en_shtc3', w0) =
            (if en_stc31c \<and> \<not> en_shtc3 then
               (True,
                logger ERROR
                  ''STC31C sensor requires SHTC3 data. Enabling SHTC3 sensor automatically.''
                  [] w)
             else (en_shtc3, w))
      in (\<lparr>enable_stc31c = en_stc31c, enable_shtc3 = en_shtc3', enable_sps30 = en_sps30,
           stc31c = (if en_stc31c then Some (STC31CSensor_new co2_self_calibration) else None),
           shtc3 = (if en_shtc3' then Some (SHTC3Sensor_new 0x44) else None),
           sps30 = (if en_sps30 then Some SPS30Sensor_new else None)\<rparr>, w0))"

text \<open>The body of the \<^verbatim>\<open>try\<close> block of \<^verbatim>\<open>__init__\<close>.\<close>

definition init_sensors :: "driver \<Rightarrow> SensorManager \<Rightarrow> world \<Rightarrow> (unit, SensorManager) outcome" where
  "init_sensors d m w =
     (case (if enable_stc31c m then on_stc31c (STC31CSensor_initialize d) m w
            else (Inr (), m, w)) of
        (Inl e, m1, w1) \<Rightarrow> (Inl e, m1, w1)
      | (Inr u, m1, w1) \<Rightarrow>
          (case (if enable_shtc3 m1 then on_shtc3 (SHTC3Sensor_initialize d) m1 w1
                 else (Inr (), m1, w1)) of
             (Inl e, m2, w2) \<Rightarrow> (Inl e, m2, w2)
           | (Inr u, m2, w2) \<Rightarrow>
               (if enable_sps30 m2 then on_sps30 (SPS30Sensor_initialize d 4) m2 w2
                else (Inr (), m2, w2))))"

text \<open>
  \<^verbatim>\<open>shutdown\<close>: both \<^verbatim>\<open>try\<close> blocks catch \<^verbatim>\<open>Exception\<close>, so the method returns
  normally whatever the sensor does.
\<close>

definition SensorManager_shutdown ::
  "driver \<Rightarrow> SensorManager \<Rightarrow> world \<Rightarrow> SensorManager \<times> world" where
  "SensorManager_shutdown d m w =
     (let w1 = logger INFO ''Shutting down all enabled sensors'' [] w;
          (m3, w3) =
            (case sps30 m of
               None \<Rightarrow> (m, w1)
             | Some s \<Rightarrow>
                 if enable_sps30 m then
                   let (s2, w2) =
                         (if measurement_started s then
                            (case SPS30Sensor_stop_measurement d s
                                    (logger DEBUG ''Stopping SPS30 measurement'' [] w1) of
                               (Inl e, s', w') \<Rightarrow>
                                 (s', logger WARNING ''Failed to stop SPS30 measurement: %s''
                                        [e] w')
                             | (Inr u, s', w') \<Rightarrow> (s', w'))
                          else (s, w1));
                       (s3, w3) =
                         (case SPS30Sensor_close d s2
                                 (logger DEBUG ''Closing SPS30 connection'' [] w2) of
                            (Inl e, s', w') \<Rightarrow>
                              (s', logger WARNING ''Failed to close SPS30 connection: %s''
                                     [e] w')
                          | (Inr u, s', w') \<Rightarrow> (s', w'))
                   in (m\<lparr>sps30 := Some s3\<rparr>, w3)
                 else (m, w1))
      in (m3, logger INFO ''Sensor shutdown complete'' [] w3))"

text \<open>The handler \<^verbatim>\<open>except (InitializationError, ReadError)\<close>.\<close>

fun is_sensor_init_or_read_error :: "exn \<Rightarrow> bool" where
  "is_sensor_init_or_read_error (InitializationError n msg c dt) = True"
| "is_sensor_init_or_read_error (ReadError n msg c dt) = True"
| "is_sensor_init_or_read_error e = False"

text \<open>
  \<^verbatim>\<open>__init__\<close>. When it raises, Python hands no object back; the model still
  returns the object and the world as they are at that point.
\<close>

definition SensorManager_init ::
  "driver \<Rightarrow> bool \<Rightarrow> bool \<Rightarrow> bool \<Rightarrow> bool \<Rightarrow> world \<Rightarrow> (unit, SensorManager) outcome" where
  "SensorManager_init d co2_self_calibration en_stc31c en_shtc3 en_sps30 w =
     (case SensorManager_fields co2_self_calibration en_stc31c en_shtc3 en_sps30 w of
        (m0, w0) \<Rightarrow>
          (case init_sensors d m0 w0 of
             (Inr u, m1, w1) \<Rightarrow> (Inr (), m1, w1)
           | (Inl e, m1, w1) \<Rightarrow>
               if is_sensor_init_or_read_error e then
                 (case SensorManager_shutdown d m1 w1 of (m2, w2) \<Rightarrow> (Inl e, m2, w2))
               else (Inl e, m1, w1)))"

subsection \<open>Bulk reads\<close>

definition get_all_info_sps30 ::
  "driver \<Rightarrow> (string \<times> (string \<times> detail) list) list \<Rightarrow> SensorManager \<Rightarrow> world
    \<Rightarrow> ((string \<times> (string \<times> detail) list) list, SensorManager) outcome" where
  "get_all_info_sps30 d result m w =
     (if enable_sps30 m then
        (case on_sps30 (SPS30Sensor_get_info d) m w of
           (Inl e, m1, w1) \<Rightarrow> (Inl e, m1, w1)
         | (Inr info, m1, w1) \<Rightarrow> (Inr (result @ [(''sps30'', info)]), m1, w1))
      else (Inr result, m, w))"

definition get_all_info_shtc3 ::
  "driver \<Rightarrow> (string \<times> (string \<times> detail) list) list \<Rightarrow> SensorManager \<Rightarrow> world
    \<Rightarrow> ((string \<times> (string \<times> detail) list) list, SensorManager) outcome" where
  "get_all_info_shtc3 d result m w =
     (if enable_shtc3 m then
        (case on_shtc3 (SHTC3Sensor_get_info d) m w of
           (Inl e, m1, w1) \<Rightarrow> (Inl e, m1, w1)
         | (Inr info, m1, w1) \<Rightarrow> get_all_info_sps30 d (result @ [(''shtc3'', info)]) m1 w1)
      else get_all_info_sps30 d result m w)"

definition SensorManager_get_all_info ::
  "driver \<Rightarrow> SensorManager \<Rightarrow> world
    \<Rightarrow> ((string \<times> (string \<times> detail) list) list, SensorManager) outcome" where
  "SensorManager_get_all_info d m w =
     (if enable_stc31c m then
        (case on_stc31c (STC31CSensor_get_info d) m w of
           (Inl e, m1, w1) \<Rightarrow> (Inl e, m1, w1)
         | (Inr info, m1, w1) \<Rightarrow> get_all_info_shtc3 d [(''stc31c'', info)] m1 w1)
      else get_all_info_shtc3 d [] m w)"

text \<open>
  \<^verbatim>\<open>read_all\<close>, in the three blocks of the source. \<^verbatim>\<open>if shtc3_data:\<close> is
  Python's truth test of an optional dictionary; \<^verbatim>\<open>shtc3_data["temperature"]\<close>
  raises \<^verbatim>\<open>KeyError\<close> on a missing key.
\<close>

definition truthy :: "(string \<times> real) list option \<Rightarrow> bool" where
  "truthy data = (case data of None \<Rightarrow> False | Some kv \<Rightarrow> kv \<noteq> [])"

definition read_all_sps30 ::
  "driver \<Rightarrow> (string \<times> (string \<times> real) list) list \<Rightarrow> SensorManager \<Rightarrow> world
    \<Rightarrow> ((string \<times> (string \<times> real) list) list, SensorManager) outcome" where
  "read_all_sps30 d result m w =
     (if enable_sps30 m then
        (case on_sps30 (SPS30Sensor_read d None None) m w of
           (Inl e, m1, w1) \<Rightarrow> (Inl e, m1, w1)
         | (Inr data, m1, w1) \<Rightarrow> (Inr (result @ [(''sps30'', data)]), m1, w1))
      else (Inr result, m, w))"

definition read_all_stc31c ::
  "driver \<Rightarrow> (string \<times> real) list option \<Rightarrow> (string \<times> (string \<times> real) list) list
    \<Rightarrow> SensorManager \<Rightarrow> world
    \<Rightarrow> ((string \<times> (string \<times> real) list) list, SensorManager) outcome" where
  "read_all_stc31c d shtc3_data result m w =
     (if enable_stc31c m then
        (case stc31c m of
           None \<Rightarrow> (Inl AssertionError, m, w)
         | Some s \<Rightarrow>
             if truthy shtc3_data then
               (case map_of (the shtc3_data) ''temperature'' of
                  None \<Rightarrow> (Inl (KeyError ''temperature''), m, w)
                | Some t \<Rightarrow>
                    (case map_of (the shtc3_data) ''relative_humidity'' of
                       None \<Rightarrow> (Inl (KeyError ''relative_humidity''), m, w)
                     | Some h \<Rightarrow>
                         (case on_stc31c (STC31CSensor_read d (Some t) (Some h)) m w of
                            (Inl e, m1, w1) \<Rightarrow> (Inl e, m1, w1)
                          | (Inr stc31c_data, m1, w1) \<Rightarrow>
                              read_all_sps30 d (result @ [(''stc31c'', stc31c_data)]) m1 w1)))
             else
               read_all_sps30 d result m
                 (logger ERROR
                    ''Cannot read STC31C without SHTC3 data. Skipping STC31C reading.'' [] w))
      else read_all_sps30 d result m w)"

definition SensorManager_read_all ::
  "driver \<Rightarrow> SensorManager \<Rightarrow> world
    \<Rightarrow> ((string \<times> (string \<times> real) list) list, SensorManager) outcome" where
  "SensorManager_read_all d m w =
     (if enable_shtc3 m then
        (case on_shtc3 (SHTC3Sensor_read d None None ''high'') m w of
           (Inl e, m1, w1) \<Rightarrow> (Inl e, m1, w1)
         | (Inr shtc3_data, m1, w1) \<Rightarrow>
             read_all_stc31c d (Some shtc3_data) [(''shtc3'', shtc3_data)] m1 w1)
      else read_all_stc31c d None [] m w)"

subsection \<open>Bulk sleep and wake-up\<close>

text \<open>
  The handlers of \<^verbatim>\<open>sleep_all\<close> and \<^verbatim>\<open>wake_up_all\<close>:
  \<^verbatim>\<open>except NotImplementedError\<close> logs at debug level, \<^verbatim>\<open>except Exception\<close> logs a
  warning; neither re-raises.
\<close>

definition swallow :: "string \<Rightarrow> string \<Rightarrow> ('a, 's) outcome \<Rightarrow> 's \<times> world" where
  "swallow dbg warn r =
     (case r of
        (Inr a, s, w) \<Rightarrow> (s, w)
      | (Inl (NotImplementedError x), s, w) \<Rightarrow> (s, logger DEBUG dbg [] w)
      | (Inl e, s, w) \<Rightarrow> (s, logger WARNING warn [e] w))"

definition SensorManager_sleep_all ::
  "driver \<Rightarrow> SensorManager \<Rightarrow> world \<Rightarrow> SensorManager \<times> world" where
  "SensorManager_sleep_all d m w =
     (let (m1, w1) =
            (case stc31c m of
               Some s \<Rightarrow>
                 if enable_stc31c m then
                   (case swallow ''STC31C sensor does not support sleep mode''
                           ''Failed to put STC31C to sleep: %s'' (STC31CSensor_sleep d s w) of
                      (s', w') \<Rightarrow> (m\<lparr>stc31c := Some s'\<rparr>, w'))
                 else (m, w)
             | None \<Rightarrow> (m, w));
          (m2, w2) =
            (case shtc3 m1 of
               Some s \<Rightarrow>
                 if enable_shtc3 m1 then
                   (case swallow ''SHTC3 sensor does not support sleep mode''
                           ''Failed to put SHTC3 to sleep: %s'' (SHTC3Sensor_sleep d s w1) of
                      (s', w') \<Rightarrow> (m1\<lparr>shtc3 := Some s'\<rparr>, w'))
                 else (m1, w1)
             | None \<Rightarrow> (m1, w1))
      in (case sps30 m2 of
            Some s \<Rightarrow>
              if enable_sps30 m2 then
                (case swallow ''SPS30 sensor does not support sleep mode''
                        ''Failed to put SPS30 to sleep: %s''
                        (case (if measurement_started s then SPS30Sensor_stop_measurement d s w2
                               else (Inr (), s, w2)) of
                           (Inl e, s', w') \<Rightarrow> (Inl e, s', w')
                         | (Inr u, s', w') \<Rightarrow> SPS30Sensor_sleep d s' w') of
                   (s', w') \<Rightarrow> (m2\<lparr>sps30 := Some s'\<rparr>, w'))
              else (m2, w2)
          | None \<Rightarrow> (m2, w2)))"

definition SensorManager_wake_up_all ::
  "driver \<Rightarrow> SensorManager \<Rightarrow> world \<Rightarrow> SensorManager \<times> world" where
  "SensorManager_wake_up_all d m w =
     (let (m1, w1) =
            (case stc31c m of
               Some s \<Rightarrow>
                 if enable_stc31c m then
                   (case swallow ''STC31C sensor does not support wake-up''
                           ''Failed to wake up STC31C: %s'' (STC31CSensor_wake_up d s w) of
                      (s', w') \<Rightarrow> (m\<lparr>stc31c := Some s'\<rparr>, w'))
                 else (m, w)
             | None \<Rightarrow> (m, w));
          (m2, w2) =
            (case shtc3 m1 of
               Some s \<Rightarrow>
                 if enable_shtc3 m1 then
                   (case swallow ''SHTC3 sensor does not support wake-up''
                           ''Failed to wake up SHTC3: %s'' (SHTC3Sensor_wake_up d s w1) of
                      (s', w') \<Rightarrow> (m1\<lparr>shtc3 := Some s'\<rparr>, w'))
                 else (m1, w1)
             | None \<Rightarrow> (m1, w1))
      in (case sps30 m2 of
            Some s \<Rightarrow>
              if enable_sps30 m2 then
                (case swallow ''SPS30 sensor does not support wake-up''
                        ''Failed to wake up SPS30: %s'' (SPS30Sensor_wake_up d s w2) of
                   (s', w') \<Rightarrow> (m2\<lparr>sps30 := Some s'\<rparr>, w'))
              else (m2, w2)
          | None \<Rightarrow> (m2, w2)))"

section \<open>Sequences of calls on the particulate sensor\<close>

text \<open>
  The public methods of \<^verbatim>\<open>SPS30Sensor\<close>, as a caller can invoke them one after the
  other on the same object. An exception raised by one call is seen by the
  caller, who may go on calling; the object keeps the state it had at the raise.
\<close>

datatype sps30_op =
    Op_initialize int
  | Op_stop_measurement
  | Op_read "real option" "real option"
  | Op_sleep
  | Op_wake_up
  | Op_start_manual_fan_cleaning
  | Op_set_fan_auto_cleaning_interval_days int
  | Op_get_fan_auto_cleaning_interval_days
  | Op_reset
  | Op_close
  | Op_get_info

definition after :: "('a, 's) outcome \<Rightarrow> 's \<times> world" where
  "after r = snd r"

fun SPS30Sensor_call :: "driver \<Rightarrow> sps30_op \<Rightarrow> SPS30Sensor \<Rightarrow> world \<Rightarrow> SPS30Sensor \<times> world" where
  "SPS30Sensor_call d (Op_initialize n) s w = after (SPS30Sensor_initialize d n s w)"
| "SPS30Sensor_call d Op_stop_measurement s w = after (SPS30Sensor_stop_measurement d s w)"
| "SPS30Sensor_call d (Op_read t h) s w = after (SPS30Sensor_read d t h s w)"
| "SPS30Sensor_call d Op_sleep s w = after (SPS30Sensor_sleep d s w)"
| "SPS30Sensor_call d Op_wake_up s w = after (SPS30Sensor_wake_up d s w)"
| "SPS30Sensor_call d Op_start_manual_fan_cleaning s w =
     after (SPS30Sensor_start_manual_fan_cleaning d s w)"
| "SPS30Sensor_call d (Op_set_fan_auto_cleaning_interval_days n) s w =
     after (SPS30Sensor_set_fan_auto_cleaning_interval_days d n s w)"
| "SPS30Sensor_call d Op_get_fan_auto_cleaning_interval_days s w =
     after (SPS30Sensor_get_fan_auto_cleaning_interval_days d s w)"
| "SPS30Sensor_call d Op_reset s w = after (SPS30Sensor_reset d s w)"
| "SPS30Sensor_call d Op_close s w = after (SPS30Sensor_close d s w)"
| "SPS30Sensor_call d Op_get_info s w = after (SPS30Sensor_get_info d s w)"

fun SPS30Sensor_calls ::
  "driver \<Rightarrow> sps30_op list \<Rightarrow> SPS30Sensor \<Rightarrow> world \<Rightarrow> SPS30Sensor \<times> world" where
  "SPS30Sensor_calls d [] s w = (s, w)"
| "SPS30Sensor_calls d (op # ops) s w =
     (case SPS30Sensor_call d op s w of (s', w') \<Rightarrow> SPS30Sensor_calls d ops s' w')"

text \<open>The invariant: an initialized sensor has its version record.\<close>

definition version_cached :: "SPS30Sensor \<Rightarrow> bool" where
  "version_cached s = (if initialized s then version_info s \<noteq> None else True)"

section \<open>Properties of a constructed manager\<close>

text \<open>Every enabled sensor is present and has completed \<^verbatim>\<open>initialize\<close>.\<close>

definition fully_initialized :: "SensorManager \<Rightarrow> bool" where
  "fully_initialized m =
     ((if enable_stc31c m
       then (case stc31c m of None \<Rightarrow> False | Some s \<Rightarrow> STC31CSensor.initialized s)
       else True) \<and>
      (if enable_shtc3 m
       then (case shtc3 m of None \<Rightarrow> False | Some s \<Rightarrow> SHTC3Sensor.initialized s)
       else True) \<and>
      (if enable_sps30 m
       then (case sps30 m of None \<Rightarrow> False | Some s \<Rightarrow> SPS30Sensor.initialized s)
       else True))"

section \<open>A concrete driver for worked inputs\<close>

text \<open>
  A driver whose status depends on the call only, with the output values of
  the mocked sensors of \<^verbatim>\<open>tests/test_sensor_manager.py\<close>: 25 degrees and 50 percent
  from the SHTC3, 0.1 volume percent from the STC31-C, and the SPS30 record of
  the mock. The firmware major version is a parameter.
\<close>

definition bench_driver :: "(call \<Rightarrow> int) \<Rightarrow> 8 word \<Rightarrow> driver" where
  "bench_driver st fw =
     \<lparr>status = (\<lambda>w c. st c),
      floats_out = (\<lambda>w c. if c = stc3x_measure_gas_concentration then (1 / 10, 25) else (25, 50)),
      product_id_out = (\<lambda>w. (0x08010301, 0x1A2B)),
      serial_number_out = (\<lambda>w. 7),
      version_out = (\<lambda>w. \<lparr>firmware_major = fw, firmware_minor = 0, hardware_revision = 7,
                           shdlc_major = 2, shdlc_minor = 0\<rparr>),
      serial_out = (\<lambda>w. ''5555555555''),
      measurement_out = (\<lambda>w. \<lparr>mc_1p0 = 10, mc_2p5 = 25, mc_4p0 = 40, mc_10p0 = 100,
                               nc_0p5 = 5, nc_1p0 = 10, nc_2p5 = 25, nc_4p0 = 40,
                               nc_10p0 = 100, typical_particle_size = 5 / 2\<rparr>),
      interval_out = (\<lambda>w. 4)\<rparr>"

definition all_ok :: "call \<Rightarrow> int" where
  "all_ok c = 0"

definition failing :: "call \<Rightarrow> int \<Rightarrow> call \<Rightarrow> int" where
  "failing bad code c = (if c = bad then code else 0)"

text \<open>A particulate sensor after a successful \<^verbatim>\<open>initialize\<close>, with the given firmware.\<close>

definition running_sps30 :: "8 word \<Rightarrow> SPS30Sensor" where
  "running_sps30 fw =
     \<lparr>version_info = Some \<lparr>firmware_major = fw, firmware_minor = 0, hardware_revision = 7,
                           shdlc_major = 2, shdlc_minor = 0\<rparr>,
      serial_number = ''5555555555'', initialized = True, uart_open = True,
      measurement_started = True, sleeping = False\<rparr>"


text \<open>Whether an exception is a \<^verbatim>\<open>ReadError\<close>.\<close>

fun is_ReadError :: "exn \<Rightarrow> bool" where
  "is_ReadError (ReadError n msg c dt) = True"
| "is_ReadError e = False"

section \<open>The single sensors\<close>

subsection \<open>Operations on an uninitialized sensor\<close>

text \<open>
  Claim C4, as stated: for each of the three sensors, every public operation other
  than \<^verbatim>\<open>initialize\<close> fails with the not-initialized error on an uninitialized sensor,
  never succeeds silently and never issues a bus command. This is false: on a freshly
  constructed CO2 sensor \<^verbatim>\<open>disable_automatic_self_calibration\<close> (which \<^verbatim>\<open>initialize\<close>
  itself calls before it sets the flag) issues its bus command and returns normally,
  and on a freshly constructed particulate sensor \<^verbatim>\<open>get_info\<close> returns the record of
  unknown values.
\<close>

theorem uninitialized_admin_command_counterexample:
  "\<not> STC31CSensor.initialized (STC31CSensor_new False) \<and>
   STC31CSensor_disable_automatic_self_calibration (bench_driver all_ok 2)
       (STC31CSensor_new False) [] =
     (Inr (), STC31CSensor_new False, [Call stc3x_disable_automatic_self_calibration, Sleep 10])
   \<and> \<not> initialized SPS30Sensor_new \<and>
   SPS30Sensor_get_info (bench_driver all_ok 2) SPS30Sensor_new [] =
     (Inr [(''firmware_version'', DStr ''Unknown''), (''hardware_revision'', DInt (- 1)),
           (''shdlc_version'', DStr ''Unknown''), (''serial_number'', DStr ''Unknown'')],
      SPS30Sensor_new, [])"
  by (simp add: STC31CSensor_disable_automatic_self_calibration_def STC31CSensor_new_def
                lib_call_def bench_driver_def all_ok_def time_sleep_def
                SPS30Sensor_get_info_def SPS30Sensor_new_def)

text \<open>
  Claim C4, amended: on an uninitialized sensor, \<^verbatim>\<open>read\<close> of each of the three
  sensors, \<^verbatim>\<open>get_info\<close> and \<^verbatim>\<open>soft_reset\<close> of the temperature/humidity sensor, and
  \<^verbatim>\<open>sleep\<close> and \<^verbatim>\<open>wake_up\<close> of a particulate sensor that holds a version record with
  firmware major version at least 2, fail with a \<^verbatim>\<open>ReadError\<close> of code -1, leave the
  object unchanged and issue no bus command.
\<close>

theorem uninitialized_guarded_operations:
  "(\<not> STC31CSensor.initialized c \<longrightarrow>
      STC31CSensor_read d t h c w =
        (Inl (ReadError ''STC31-C'' ''Sensor not initialized'' (Some (- 1))
               [(''operation'', DStr ''read'')]), c, w))
   \<and> (\<not> SHTC3Sensor.initialized th \<longrightarrow>
      SHTC3Sensor_read d t h mode th w =
        (Inl (ReadError ''SHTC3'' ''Sensor not initialized'' (Some (- 1))
               [(''operation'', DStr ''read'')]), th, w) \<and>
      SHTC3Sensor_get_info d th w =
        (Inl (ReadError ''SHTC3'' ''Sensor not initialized'' (Some (- 1))
               [(''operation'', DStr ''get_info'')]), th, w) \<and>
      SHTC3Sensor_soft_reset d th w =
        (Inl (ReadError ''SHTC3'' ''Sensor not initialized'' (Some (- 1))
               [(''operation'', DStr ''soft_reset'')]), th, w))
   \<and> (\<not> initialized p \<longrightarrow>
      SPS30Sensor_read d t h p w =
        (Inl (ReadError ''SPS30''
               ''Cannot read data: sensor not properly initialized or measurement not started''
               (Some (- 1)) [(''operation'', DStr ''read'')]), p, w))
   \<and> (\<not> initialized p \<and> \<not> sleep_unsupported p \<longrightarrow>
      SPS30Sensor_sleep d p w =
        (Inl (ReadError ''SPS30'' ''Sensor not initialized'' (Some (- 1))
               [(''operation'', DStr ''sleep'')]), p, w) \<and>
      SPS30Sensor_wake_up d p w =
        (Inl (ReadError ''SPS30'' ''Sensor not initialized'' (Some (- 1))
               [(''operation'', DStr ''wake_up'')]), p, w))"
  by (simp add: STC31CSensor_read_def SHTC3Sensor_read_def SHTC3Sensor_get_info_def
                SHTC3Sensor_soft_reset_def SPS30Sensor_read_def SPS30Sensor_sleep_def
                SPS30Sensor_wake_up_def)

theorem uninitialized_guarded_operations_witness:
  "fst (STC31CSensor_read (bench_driver all_ok 2) (Some 25) (Some 50) (STC31CSensor_new False) [])
     = Inl (ReadError ''STC31-C'' ''Sensor not initialized'' (Some (- 1))
             [(''operation'', DStr ''read'')])
   \<and> fst (SHTC3Sensor_read (bench_driver all_ok 2) (Some 25) (Some 50) ''high''
            (SHTC3Sensor_new 0x44) [])
     = Inl (ReadError ''SHTC3'' ''Sensor not initialized'' (Some (- 1))
             [(''operation'', DStr ''read'')])
   \<and> fst (SPS30Sensor_read (bench_driver all_ok 2) (Some 25) (Some 50) SPS30Sensor_new [])
     = Inl (ReadError ''SPS30''
             ''Cannot read data: sensor not properly initialized or measurement not started''
             (Some (- 1)) [(''operation'', DStr ''read'')])
   \<and> fst (SPS30Sensor_sleep (bench_driver all_ok 2) ((running_sps30 2)\<lparr>initialized := False\<rparr>) [])
     = Inl (ReadError ''SPS30'' ''Sensor not initialized'' (Some (- 1))
             [(''operation'', DStr ''sleep'')])"
  using uninitialized_guarded_operations
          [of "STC31CSensor_new False" "bench_driver all_ok 2" "Some 25" "Some 50" "[]"
              "SHTC3Sensor_new 0x44" "''high''" "SPS30Sensor_new"]
        uninitialized_guarded_operations
          [of "STC31CSensor_new False" "bench_driver all_ok 2" "Some 25" "Some 50" "[]"
              "SHTC3Sensor_new 0x44" "''high''" "(running_sps30 2)\<lparr>initialized := False\<rparr>"]
  by (simp add: STC31CSensor_new_def SHTC3Sensor_new_def SPS30Sensor_new_def running_sps30_def
                sleep_unsupported_def)

subsection \<open>The CO2 sensor\<close>

text \<open>
  Claim C8: on an initialized CO2 sensor, \<^verbatim>\<open>read\<close> with the temperature or the
  humidity absent raises \<^verbatim>\<open>ValueError\<close> (the argument error, not a \<^verbatim>\<open>ReadError\<close>),
  leaves the object unchanged and issues no bus command: the world is the one
  it was called in.
\<close>

theorem co2_read_missing_argument:
  assumes "STC31CSensor.initialized s" and "temperature = None \<or> humidity = None"
  shows "STC31CSensor_read d temperature humidity s w =
           (Inl (ValueError ''STC31CSensor.read() requires 'temperature' and 'humidity' values.''),
            s, w)
         \<and> \<not> is_ReadError
               (ValueError ''STC31CSensor.read() requires 'temperature' and 'humidity' values.'')"
  using assms by (cases temperature; cases humidity) (auto simp: STC31CSensor_read_def)

theorem co2_read_missing_argument_witness:
  "STC31CSensor_read (bench_driver all_ok 2) None (Some 50)
      \<lparr>STC31CSensor.initialized = True, sleeping = False, enable_asc = False\<rparr> [] =
     (Inl (ValueError ''STC31CSensor.read() requires 'temperature' and 'humidity' values.''),
      \<lparr>STC31CSensor.initialized = True, sleeping = False, enable_asc = False\<rparr>, [])"
  using co2_read_missing_argument
    [of "\<lparr>STC31CSensor.initialized = True, sleeping = False, enable_asc = False\<rparr>"
        None "Some 50" "bench_driver all_ok 2" "[]"]
  by simp

subsection \<open>The temperature and humidity sensor\<close>

text \<open>
  Claim C9 says that \<^verbatim>\<open>sleep\<close> and \<^verbatim>\<open>wake_up\<close> of the temperature/humidity sensor
  signal that the capability is unsupported and never succeed silently. The
  methods of \<^verbatim>\<open>SHTC3Sensor\<close> do the opposite: in every state and for every driver
  they return normally, change nothing and emit nothing, whereas the methods of
  \<^verbatim>\<open>SensorBase\<close> that they override raise \<^verbatim>\<open>NotImplementedError\<close>.
\<close>

theorem shtc3_sleep_wake_return_normally:
  "SHTC3Sensor_sleep d s w = (Inr (), s, w) \<and> SHTC3Sensor_wake_up d s w = (Inr (), s, w)"
  by (simp add: SHTC3Sensor_sleep_def SHTC3Sensor_wake_up_def)

subsection \<open>The particulate sensor\<close>

text \<open>
  Claim C5, as stated: in every state of the particulate sensor, \<^verbatim>\<open>sleep\<close> called
  while measurement is active fails with \<^verbatim>\<open>ReadError\<close>. This is false below firmware
  major version 2: with version 1 and measurement active, \<^verbatim>\<open>sleep\<close> returns normally.
\<close>

theorem sps30_sleep_old_firmware_counterexample:
  "measurement_started (running_sps30 1) \<and>
   SPS30Sensor_sleep (bench_driver all_ok 1) (running_sps30 1) [] = (Inr (), running_sps30 1, [])"
  by (simp add: SPS30Sensor_sleep_def sleep_unsupported_def running_sps30_def)

text \<open>
  Claim C5, amended: when the sensor holds a version record with firmware major
  version at least 2, \<^verbatim>\<open>sleep\<close> called while measurement is active fails with a
  \<^verbatim>\<open>ReadError\<close> of code -1, leaving the object unchanged and issuing no bus command;
  and in every state \<^verbatim>\<open>sleep\<close> leaves the measurement flag as it was and issues at
  most the one command \<^verbatim>\<open>sps30_sleep\<close>, so it never stops measurement by itself.
\<close>

theorem sps30_sleep_while_measuring:
  "(measurement_started s \<and> version_info s = Some v \<and> 2 \<le> firmware_major v \<longrightarrow>
      (\<exists>msg. SPS30Sensor_sleep d s w =
           (Inl (ReadError ''SPS30'' msg (Some (- 1)) [(''operation'', DStr ''sleep'')]), s, w)))
   \<and> (case SPS30Sensor_sleep d s w of
         (r, s', w') \<Rightarrow>
           measurement_started s' = measurement_started s \<and>
           (w' = w \<or> w' = w @ [Call sps30_sleep]))"
  by (auto simp: SPS30Sensor_sleep_def sleep_unsupported_def lib_call_def not_less)

theorem sps30_sleep_while_measuring_witness:
  "SPS30Sensor_sleep (bench_driver all_ok 2) (running_sps30 2) [] =
     (Inl (ReadError ''SPS30'' ''Stop measurement before sleeping'' (Some (- 1))
            [(''operation'', DStr ''sleep'')]), running_sps30 2, [])"
  using sps30_sleep_while_measuring
          [of "running_sps30 2" "the (version_info (running_sps30 2))" "bench_driver all_ok 2" "[]"]
  by (simp add: running_sps30_def SPS30Sensor_sleep_def sleep_unsupported_def)

text \<open>
  Claim C6: with a cached firmware major version below 2, \<^verbatim>\<open>sleep\<close> and \<^verbatim>\<open>wake_up\<close>
  return normally, issue no bus command and leave the whole object, the sleeping
  flag included, unchanged; from version 2 on they run their guards (initialized;
  measurement stopped, respectively sleeping) and then the bus command, setting the
  sleeping flag when it succeeds.
\<close>

theorem sps30_firmware_gate:
  assumes "version_info s = Some v"
  shows "(firmware_major v < 2 \<longrightarrow>
            SPS30Sensor_sleep d s w = (Inr (), s, w) \<and>
            SPS30Sensor_wake_up d s w = (Inr (), s, w))
       \<and> (2 \<le> firmware_major v \<longrightarrow>
            SPS30Sensor_sleep d s w =
              (if \<not> initialized s then
                 (Inl (ReadError ''SPS30'' ''Sensor not initialized'' (Some (- 1))
                        [(''operation'', DStr ''sleep'')]), s, w)
               else if measurement_started s then
                 (Inl (ReadError ''SPS30'' ''Stop measurement before sleeping'' (Some (- 1))
                        [(''operation'', DStr ''sleep'')]), s, w)
               else if status d w sps30_sleep \<noteq> 0 then
                 (Inl (ReadError ''SPS30'' ''Entering sleep failed''
                        (Some (status d w sps30_sleep))
                        [(''operation'', DStr ''sps30_sleep'')]), s, w @ [Call sps30_sleep])
               else (Inr (), s\<lparr>sleeping := True\<rparr>, w @ [Call sps30_sleep])) \<and>
            SPS30Sensor_wake_up d s w =
              (if \<not> initialized s then
                 (Inl (ReadError ''SPS30'' ''Sensor not initialized'' (Some (- 1))
                        [(''operation'', DStr ''wake_up'')]), s, w)
               else if \<not> sleeping s then
                 (Inl (ReadError ''SPS30'' ''Sensor is not sleeping'' (Some (- 1))
                        [(''operation'', DStr ''wake_up'')]), s, w)
               else if status d w sps30_wake_up \<noteq> 0 then
                 (Inl (ReadError ''SPS30'' ''Waking up from sleep failed''
                        (Some (status d w sps30_wake_up))
                        [(''operation'', DStr ''sps30_wake_up'')]), s, w @ [Call sps30_wake_up])
               else (Inr (), s\<lparr>sleeping := False\<rparr>, w @ [Call sps30_wake_up])))"
  using assms
  by (auto simp: SPS30Sensor_sleep_def SPS30Sensor_wake_up_def sleep_unsupported_def
                 lib_call_def not_less)

theorem sps30_firmware_gate_witness:
  "SPS30Sensor_sleep (bench_driver all_ok 1) (running_sps30 1) [] = (Inr (), running_sps30 1, [])
   \<and> SPS30Sensor_wake_up (bench_driver all_ok 0) (running_sps30 0) [] = (Inr (), running_sps30 0, [])
   \<and> SPS30Sensor_sleep (bench_driver all_ok 2) ((running_sps30 2)\<lparr>measurement_started := False\<rparr>) []
       = (Inr (), (running_sps30 2)\<lparr>measurement_started := False, sleeping := True\<rparr>,
          [Call sps30_sleep])"
  using sps30_firmware_gate [of "running_sps30 1" _ "bench_driver all_ok 1" "[]"]
        sps30_firmware_gate [of "running_sps30 0" _ "bench_driver all_ok 0" "[]"]
        sps30_firmware_gate [of "(running_sps30 2)\<lparr>measurement_started := False\<rparr>" _
                                "bench_driver all_ok 2" "[]"]
  by (simp add: running_sps30_def bench_driver_def all_ok_def)

text \<open>
  What \<^verbatim>\<open>read\<close> does on each status of the read command, on an initialized sensor
  with measurement active: the source tests \<^verbatim>\<open>ret < 0\<close> and, inside, \<^verbatim>\<open>ret == -1\<close>.
\<close>

lemma sps30_read_status:
  assumes "initialized s" and "measurement_started s"
  shows "SPS30Sensor_read d t h s w =
     (if status d w sps30_read_measurement = - 1 then
        (Inl (ReadError ''SPS30'' ''Not enough data available (the sensor needs more time).''
               (Some (- 1)) [(''operation'', DStr ''sps30_read_measurement'')]),
         s, w @ [Call sps30_read_measurement])
      else if status d w sps30_read_measurement < 0 then
        (Inl (ReadError ''SPS30'' ''Failed to read particulate matter data''
               (Some (status d w sps30_read_measurement))
               [(''operation'', DStr ''sps30_read_measurement'')]),
         s, w @ [Call sps30_read_measurement])
      else
        (Inr [(''pm1.0'', mc_1p0 (measurement_out d w)),
              (''pm2.5'', mc_2p5 (measurement_out d w)),
              (''pm4.0'', mc_4p0 (measurement_out d w)),
              (''pm10.0'', mc_10p0 (measurement_out d w)),
              (''nc0.5'', nc_0p5 (measurement_out d w)),
              (''nc1.0'', nc_1p0 (measurement_out d w)),
              (''nc2.5'', nc_2p5 (measurement_out d w)),
              (''nc4.0'', nc_4p0 (measurement_out d w)),
              (''nc10.0'', nc_10p0 (measurement_out d w)),
              (''typical_particle_size'', typical_particle_size (measurement_out d w))],
         s, w @ [Call sps30_read_measurement]))"
  using assms by (simp add: SPS30Sensor_read_def lib_call_def Let_def)

text \<open>
  Claim C7 says that \<^verbatim>\<open>read\<close> fails with \<^verbatim>\<open>ReadError\<close> whenever the status of the
  read command is nonzero, with one reason for the reserved status of insufficient
  data and another for every other failure, and that status 0 yields the record of
  nine concentrations and the typical particle size. For every status that is zero
  or negative the method does so. For a positive status it does not: on an
  initialized sensor with measurement active, whenever the driver returns a
  status above 0, \<^verbatim>\<open>read\<close> raises nothing and returns the ten-entry record built
  from the measurement buffer; so it does with status 1.
\<close>

theorem sps30_read_ignores_positive_status:
  assumes "initialized s" and "measurement_started s"
      and "0 < status d w sps30_read_measurement"
  shows "SPS30Sensor_read d t h s w =
     (Inr [(''pm1.0'', mc_1p0 (measurement_out d w)),
           (''pm2.5'', mc_2p5 (measurement_out d w)),
           (''pm4.0'', mc_4p0 (measurement_out d w)),
           (''pm10.0'', mc_10p0 (measurement_out d w)),
           (''nc0.5'', nc_0p5 (measurement_out d w)),
           (''nc1.0'', nc_1p0 (measurement_out d w)),
           (''nc2.5'', nc_2p5 (measurement_out d w)),
           (''nc4.0'', nc_4p0 (measurement_out d w)),
           (''nc10.0'', nc_10p0 (measurement_out d w)),
           (''typical_particle_size'', typical_particle_size (measurement_out d w))],
      s, w @ [Call sps30_read_measurement])"
  using assms by (simp add: SPS30Sensor_read_def lib_call_def Let_def)

theorem sps30_read_ignores_positive_status_witness:
  "status (bench_driver (failing sps30_read_measurement 1) 2) [] sps30_read_measurement = 1 \<and>
   SPS30Sensor_read (bench_driver (failing sps30_read_measurement 1) 2) None None
          (running_sps30 2) [] =
     (Inr [(''pm1.0'', 10), (''pm2.5'', 25), (''pm4.0'', 40), (''pm10.0'', 100),
           (''nc0.5'', 5), (''nc1.0'', 10), (''nc2.5'', 25), (''nc4.0'', 40), (''nc10.0'', 100),
           (''typical_particle_size'', 5 / 2)],
      running_sps30 2, [Call sps30_read_measurement])"
  using sps30_read_ignores_positive_status
          [of "running_sps30 2" "bench_driver (failing sps30_read_measurement 1) 2" "[]" None None]
  by (simp add: running_sps30_def bench_driver_def failing_def)

subsection \<open>The version record of an initialized particulate sensor\<close>

lemma version_cached_initialize:
  "version_cached s \<Longrightarrow> version_cached (fst (after (SPS30Sensor_initialize d n s w)))"
  by (auto simp: version_cached_def after_def SPS30Sensor_initialize_def lib_call_def Let_def
           split: if_splits sum.splits)

lemma version_cached_call:
  "version_cached s \<Longrightarrow> version_cached (fst (SPS30Sensor_call d op s w))"
proof (cases op)
  case (Op_initialize n)
  assume "version_cached s"
  then show ?thesis using Op_initialize by (simp add: version_cached_initialize)
qed (auto simp: version_cached_def after_def SPS30Sensor_stop_measurement_def
       SPS30Sensor_read_def SPS30Sensor_sleep_def SPS30Sensor_wake_up_def
       SPS30Sensor_start_manual_fan_cleaning_def
       SPS30Sensor_set_fan_auto_cleaning_interval_days_def
       SPS30Sensor_get_fan_auto_cleaning_interval_days_def SPS30Sensor_reset_def
       SPS30Sensor_close_def SPS30Sensor_get_info_def lib_call_def Let_def split: if_splits)

lemma version_cached_calls:
  "version_cached s \<Longrightarrow> version_cached (fst (SPS30Sensor_calls d ops s w))"
proof (induction ops arbitrary: s w)
  case Nil
  then show ?case by simp
next
  case (Cons op ops)
  obtain s' w' where step: "SPS30Sensor_call d op s w = (s', w')"
    by (cases "SPS30Sensor_call d op s w")
  with Cons.prems version_cached_call [of s d op w] have "version_cached s'" by simp
  then have "version_cached (fst (SPS30Sensor_calls d ops s' w'))" by (rule Cons.IH)
  with step show ?case by simp
qed

text \<open>
  Claim C10: a new particulate sensor is not initialized; every public operation
  preserves that an initialized sensor has its version record; hence after any
  sequence of calls on a new sensor, if the sensor is initialized, the firmware
  gate of \<^verbatim>\<open>sleep\<close> and \<^verbatim>\<open>wake_up\<close> reads a version record that is present.
\<close>

theorem sps30_initialized_has_version:
  "\<not> initialized SPS30Sensor_new
   \<and> (version_cached s \<longrightarrow> version_cached (fst (SPS30Sensor_call d op s w)))
   \<and> (case SPS30Sensor_calls d ops SPS30Sensor_new w of
        (s', w') \<Rightarrow>
          initialized s' \<longrightarrow>
            (\<exists>v. version_info s' = Some v \<and> sleep_unsupported s' = (firmware_major v < 2)))"
proof -
  have new: "version_cached SPS30Sensor_new"
    by (simp add: version_cached_def SPS30Sensor_new_def)
  have "version_cached (fst (SPS30Sensor_calls d ops SPS30Sensor_new w))"
    using new by (rule version_cached_calls)
  then have "case SPS30Sensor_calls d ops SPS30Sensor_new w of
        (s', w') \<Rightarrow>
          initialized s' \<longrightarrow>
            (\<exists>v. version_info s' = Some v \<and> sleep_unsupported s' = (firmware_major v < 2))"
    by (auto simp: version_cached_def sleep_unsupported_def split: prod.splits)
  then show ?thesis
    using version_cached_call [of s d op w] by (simp add: SPS30Sensor_new_def)
qed

theorem sps30_initialized_has_version_witness:
  "version_cached (fst (SPS30Sensor_call (bench_driver all_ok 2) Op_close (running_sps30 2) []))
   \<and> (case SPS30Sensor_calls (bench_driver all_ok 2) [Op_initialize 4, Op_stop_measurement, Op_sleep]
             SPS30Sensor_new [] of
        (s', w') \<Rightarrow> initialized s' \<and> sleeping s' \<and>
           (\<exists>v. version_info s' = Some v \<and> sleep_unsupported s' = (firmware_major v < 2)))"
  using sps30_initialized_has_version
          [of "running_sps30 2" "bench_driver all_ok 2" Op_close "[]"
              "[Op_initialize 4, Op_stop_measurement, Op_sleep]"]
  by (simp add: version_cached_def running_sps30_def after_def SPS30Sensor_new_def
        SPS30Sensor_initialize_def SPS30Sensor_stop_measurement_def SPS30Sensor_sleep_def
        sleep_unsupported_def lib_call_def bench_driver_def all_ok_def time_sleep_def
        bytes_decode_def c_char_array_value_def SPS30_MAX_SERIAL_LEN_def)

section \<open>The coordinator\<close>

subsection \<open>What initialization raises and returns\<close>

lemma stc31c_initialize_returns:
  "STC31CSensor_initialize d s w = (Inr u, s', w') \<Longrightarrow> STC31CSensor.initialized s'"
  by (auto simp: STC31CSensor_initialize_def lib_call_def Let_def
           split: if_splits prod.splits sum.splits)

lemma shtc3_initialize_returns:
  "SHTC3Sensor_initialize d s w = (Inr u, s', w') \<Longrightarrow> SHTC3Sensor.initialized s'"
  by (auto simp: SHTC3Sensor_initialize_def lib_call_def split: if_splits)

lemma sps30_initialize_returns:
  "SPS30Sensor_initialize d n s w = (Inr u, s', w') \<Longrightarrow> initialized s'"
  by (auto simp: SPS30Sensor_initialize_def lib_call_def Let_def split: if_splits sum.splits)

lemma on_stc31c_initialize:
  assumes "on_stc31c (STC31CSensor_initialize d) m w = (Inr u, m1, w1)"
  shows "enable_stc31c m1 = enable_stc31c m \<and> enable_shtc3 m1 = enable_shtc3 m \<and>
         enable_sps30 m1 = enable_sps30 m \<and> shtc3 m1 = shtc3 m \<and> sps30 m1 = sps30 m \<and>
         (case stc31c m1 of None \<Rightarrow> False | Some s \<Rightarrow> STC31CSensor.initialized s)"
proof (cases "stc31c m")
  case None
  with assms show ?thesis by (simp add: on_stc31c_def)
next
  case (Some s)
  obtain r' s' w' where i: "STC31CSensor_initialize d s w = (r', s', w')"
    by (cases "STC31CSensor_initialize d s w")
  from assms Some i have eq: "r' = Inr u" "m1 = m\<lparr>stc31c := Some s'\<rparr>"
    by (simp_all add: on_stc31c_def)
  with i stc31c_initialize_returns [of d s w u s' w'] show ?thesis by simp
qed

lemma on_shtc3_initialize:
  assumes "on_shtc3 (SHTC3Sensor_initialize d) m w = (Inr u, m1, w1)"
  shows "enable_stc31c m1 = enable_stc31c m \<and> enable_shtc3 m1 = enable_shtc3 m \<and>
         enable_sps30 m1 = enable_sps30 m \<and> stc31c m1 = stc31c m \<and> sps30 m1 = sps30 m \<and>
         (case shtc3 m1 of None \<Rightarrow> False | Some s \<Rightarrow> SHTC3Sensor.initialized s)"
proof (cases "shtc3 m")
  case None
  with assms show ?thesis by (simp add: on_shtc3_def)
next
  case (Some s)
  obtain r' s' w' where i: "SHTC3Sensor_initialize d s w = (r', s', w')"
    by (cases "SHTC3Sensor_initialize d s w")
  from assms Some i have eq: "r' = Inr u" "m1 = m\<lparr>shtc3 := Some s'\<rparr>"
    by (simp_all add: on_shtc3_def)
  with i shtc3_initialize_returns [of d s w u s' w'] show ?thesis by simp
qed

lemma on_sps30_initialize:
  assumes "on_sps30 (SPS30Sensor_initialize d n) m w = (Inr u, m1, w1)"
  shows "enable_stc31c m1 = enable_stc31c m \<and> enable_shtc3 m1 = enable_shtc3 m \<and>
         enable_sps30 m1 = enable_sps30 m \<and> stc31c m1 = stc31c m \<and> shtc3 m1 = shtc3 m \<and>
         (case sps30 m1 of None \<Rightarrow> False | Some s \<Rightarrow> SPS30Sensor.initialized s)"
proof (cases "sps30 m")
  case None
  with assms show ?thesis by (simp add: on_sps30_def)
next
  case (Some s)
  obtain r' s' w' where i: "SPS30Sensor_initialize d n s w = (r', s', w')"
    by (cases "SPS30Sensor_initialize d n s w")
  from assms Some i have eq: "r' = Inr u" "m1 = m\<lparr>sps30 := Some s'\<rparr>"
    by (simp_all add: on_sps30_def)
  with i sps30_initialize_returns [of d n s w u s' w'] show ?thesis by simp
qed

text \<open>When the body of the \<^verbatim>\<open>try\<close> block completes, every enabled sensor is initialized.\<close>

lemma init_sensors_returns:
  assumes "init_sensors d m w = (Inr u, m1, w1)"
  shows "fully_initialized m1"
proof -
  let ?A = "if enable_stc31c m then on_stc31c (STC31CSensor_initialize d) m w else (Inr (), m, w)"
  obtain ra ma wa where A: "?A = (ra, ma, wa)" by (cases ?A)
  have ra: "ra = Inr ()"
    using A assms by (cases ra) (simp_all add: init_sensors_def)
  have fa: "enable_stc31c ma = enable_stc31c m \<and> enable_shtc3 ma = enable_shtc3 m \<and>
            enable_sps30 ma = enable_sps30 m \<and>
            (if enable_stc31c m
             then (case stc31c ma of None \<Rightarrow> False | Some s \<Rightarrow> STC31CSensor.initialized s)
             else True)"
  proof (cases "enable_stc31c m")
    case True
    with A ra on_stc31c_initialize [of d m w "()" ma wa] show ?thesis by simp
  next
    case False
    with A show ?thesis by auto
  qed
  let ?B = "if enable_shtc3 ma then on_shtc3 (SHTC3Sensor_initialize d) ma wa
            else (Inr (), ma, wa)"
  obtain rb mb wb where B: "?B = (rb, mb, wb)" by (cases ?B)
  have rb: "rb = Inr ()"
    using A ra B assms by (cases rb) (simp_all add: init_sensors_def)
  have fb: "enable_stc31c mb = enable_stc31c ma \<and> enable_shtc3 mb = enable_shtc3 ma \<and>
            enable_sps30 mb = enable_sps30 ma \<and> stc31c mb = stc31c ma \<and>
            (if enable_shtc3 ma
             then (case shtc3 mb of None \<Rightarrow> False | Some s \<Rightarrow> SHTC3Sensor.initialized s)
             else True)"
  proof (cases "enable_shtc3 ma")
    case True
    with B rb on_shtc3_initialize [of d ma wa "()" mb wb] show ?thesis by simp
  next
    case False
    with B show ?thesis by auto
  qed
  let ?C = "if enable_sps30 mb then on_sps30 (SPS30Sensor_initialize d 4) mb wb
            else (Inr (), mb, wb)"
  from A ra B rb assms have C: "?C = (Inr u, m1, w1)"
    by (simp add: init_sensors_def)
  have fc: "enable_stc31c m1 = enable_stc31c mb \<and> enable_shtc3 m1 = enable_shtc3 mb \<and>
            enable_sps30 m1 = enable_sps30 mb \<and> stc31c m1 = stc31c mb \<and> shtc3 m1 = shtc3 mb \<and>
            (if enable_sps30 mb
             then (case sps30 m1 of None \<Rightarrow> False | Some s \<Rightarrow> SPS30Sensor.initialized s)
             else True)"
  proof (cases "enable_sps30 mb")
    case True
    with C on_sps30_initialize [of d 4 mb wb u m1 w1] show ?thesis by simp
  next
    case False
    with C show ?thesis by auto
  qed
  from fa fb fc show ?thesis
    by (simp add: fully_initialized_def)
qed

text \<open>
  The two ways out of \<^verbatim>\<open>__init__\<close>. An exception of the \<^verbatim>\<open>try\<close> block that is an
  \<^verbatim>\<open>InitializationError\<close> or a \<^verbatim>\<open>ReadError\<close> is raised again after \<^verbatim>\<open>shutdown\<close> has run
  on the manager as it is at that point; any other exception leaves the constructor
  as it is, with no \<^verbatim>\<open>shutdown\<close>. A manager that is returned has every enabled
  sensor initialized.
\<close>

lemma construction_outcome:
  assumes "SensorManager_fields cal e1 e2 e3 w = (m0, w0)"
      and "init_sensors d m0 w0 = (r, m1, w1)"
  shows "(case r of
            Inl e \<Rightarrow>
              SensorManager_init d cal e1 e2 e3 w =
                (if is_sensor_init_or_read_error e
                 then (Inl e, SensorManager_shutdown d m1 w1) else (Inl e, m1, w1))
          | Inr u \<Rightarrow>
              SensorManager_init d cal e1 e2 e3 w = (Inr (), m1, w1) \<and> fully_initialized m1)"
proof (cases r)
  case (Inl e)
  with assms show ?thesis
    by (cases "SensorManager_shutdown d m1 w1") (simp add: SensorManager_init_def)
next
  case (Inr u)
  with assms(2) have "fully_initialized m1" by (simp add: init_sensors_returns)
  with Inr assms show ?thesis by (simp add: SensorManager_init_def)
qed

text \<open>
  The handler at work: with a driver whose \<^verbatim>\<open>sps30_probe\<close> returns status 1, the
  constructor raises the \<^verbatim>\<open>InitializationError\<close> of the particulate sensor after
  \<^verbatim>\<open>shutdown\<close> has closed the UART.
\<close>

lemma construction_shutdown_on_probe_failure:
  "SensorManager_init (bench_driver (failing sps30_probe 1) 2) False True True True [] =
     (Inl (InitializationError ''SPS30'' ''Failed to probe SPS30 sensor'' (Some 1)
            [(''operation'', DStr ''sps30_probe'')]),
      \<lparr>enable_stc31c = True, enable_shtc3 = True, enable_sps30 = True,
       stc31c = Some \<lparr>STC31CSensor.initialized = True, sleeping = False, enable_asc = False\<rparr>,
       shtc3 = Some \<lparr>i2c_address = 0x44, initialized = True, sleeping = False\<rparr>,
       sps30 = Some SPS30Sensor_new\<rparr>,
      [Call sensirion_i2c_hal_init, Call (stc3x_init 0x29), Call (stc3x_set_binary_gas 19),
       Call stc3x_disable_automatic_self_calibration, Sleep 10, Sleep 50,
       Call (sht4x_init 0x44), Call sensirion_uart_open, Call sps30_probe,
       Log INFO ''Shutting down all enabled sensors'' [],
       Log DEBUG ''Closing SPS30 connection'' [], Call sensirion_uart_close,
       Log INFO ''Sensor shutdown complete'' []])"
proof -
  let ?d = "bench_driver (failing sps30_probe 1) 2"
  let ?m0 = "\<lparr>enable_stc31c = True, enable_shtc3 = True, enable_sps30 = True,
       stc31c = Some (STC31CSensor_new False), shtc3 = Some (SHTC3Sensor_new 0x44),
       sps30 = Some SPS30Sensor_new\<rparr>"
  let ?m1 = "\<lparr>enable_stc31c = True, enable_shtc3 = True, enable_sps30 = True,
       stc31c = Some \<lparr>STC31CSensor.initialized = True, sleeping = False, enable_asc = False\<rparr>,
       shtc3 = Some \<lparr>i2c_address = 0x44, initialized = True, sleeping = False\<rparr>,
       sps30 = Some (SPS30Sensor_new\<lparr>uart_open := True\<rparr>)\<rparr>"
  let ?w1 = "[Call sensirion_i2c_hal_init, Call (stc3x_init 0x29), Call (stc3x_set_binary_gas 19),
       Call stc3x_disable_automatic_self_calibration, Sleep 10, Sleep 50,
       Call (sht4x_init 0x44), Call sensirion_uart_open, Call sps30_probe]"
  let ?e = "InitializationError ''SPS30'' ''Failed to probe SPS30 sensor'' (Some 1)
            [(''operation'', DStr ''sps30_probe'')]"
  have f: "SensorManager_fields False True True True [] = (?m0, [])"
    by (simp add: SensorManager_fields_def)
  have i: "init_sensors ?d ?m0 [] = (Inl ?e, ?m1, ?w1)"
    by (simp add: init_sensors_def on_stc31c_def on_shtc3_def on_sps30_def
          STC31CSensor_initialize_def STC31CSensor_disable_automatic_self_calibration_def
          STC31CSensor_new_def SHTC3Sensor_initialize_def SHTC3Sensor_new_def
          ctypes_int_convertible_def
          SPS30Sensor_initialize_def SPS30Sensor_new_def lib_call_def time_sleep_def
          bench_driver_def failing_def)
  have "SensorManager_init ?d False True True True [] = (Inl ?e, SensorManager_shutdown ?d ?m1 ?w1)"
    using construction_outcome [OF f i] by simp
  then show ?thesis
    by (simp add: SensorManager_shutdown_def SPS30Sensor_close_def SPS30Sensor_new_def
          lib_call_def logger_def bench_driver_def failing_def)
qed

text \<open>
  Claim C2 says that whenever the \<^verbatim>\<open>initialize\<close> of an enabled sensor raises during
  construction, the constructor calls \<^verbatim>\<open>shutdown\<close> and then raises the same error.
  The handler is \<^verbatim>\<open>except (InitializationError, ReadError)\<close>, and \<^verbatim>\<open>initialize\<close> of the
  particulate sensor can raise something else: with all three sensors enabled and
  a driver that answers every call with status 0 but writes the bytes FF FE, which
  are not UTF-8, into the serial-number buffer, \<^verbatim>\<open>decode\<close> raises
  \<^verbatim>\<open>UnicodeDecodeError\<close>. The constructor raises it with no \<^verbatim>\<open>shutdown\<close>: the event list
  ends with \<^verbatim>\<open>sps30_get_serial\<close>, the UART is never closed, and the particulate
  sensor is left with its UART open.
\<close>

theorem construction_skips_shutdown_on_decode_error:
  "SensorManager_init
      ((bench_driver all_ok 2)\<lparr>serial_out := (\<lambda>w. [CHR 0xFF, CHR 0xFE])\<rparr>)
      False True True True [] =
     (Inl (UnicodeDecodeError [CHR 0xFF, CHR 0xFE]),
      \<lparr>enable_stc31c = True, enable_shtc3 = True, enable_sps30 = True,
       stc31c = Some \<lparr>STC31CSensor.initialized = True, sleeping = False, enable_asc = False\<rparr>,
       shtc3 = Some \<lparr>i2c_address = 0x44, initialized = True, sleeping = False\<rparr>,
       sps30 = Some \<lparr>version_info =
                        Some \<lparr>firmware_major = 2, firmware_minor = 0, hardware_revision = 7,
                              shdlc_major = 2, shdlc_minor = 0\<rparr>,
                     serial_number = ''Unknown'', initialized = False, uart_open = True,
                     measurement_started = False, sleeping = False\<rparr>\<rparr>,
      [Call sensirion_i2c_hal_init, Call (stc3x_init 0x29), Call (stc3x_set_binary_gas 19),
       Call stc3x_disable_automatic_self_calibration, Sleep 10, Sleep 50,
       Call (sht4x_init 0x44), Call sensirion_uart_open, Call sps30_probe,
       Call sps30_read_version, Call sps30_get_serial])"
  by (simp add: SensorManager_init_def SensorManager_fields_def
        init_sensors_def on_stc31c_def on_shtc3_def on_sps30_def
        STC31CSensor_initialize_def STC31CSensor_disable_automatic_self_calibration_def
        STC31CSensor_new_def SHTC3Sensor_initialize_def SHTC3Sensor_new_def
        ctypes_int_convertible_def
        SPS30Sensor_initialize_def SPS30Sensor_new_def lib_call_def time_sleep_def
        bench_driver_def all_ok_def
        bytes_decode_def c_char_array_value_def SPS30_MAX_SERIAL_LEN_def continuation_def)

subsection \<open>What construction leaves untouched\<close>

lemma stc31c_initialize_world:
  "prefix w (snd (snd (STC31CSensor_initialize d s w)))"
  by (simp add: STC31CSensor_initialize_def STC31CSensor_enable_automatic_self_calibration_def
        STC31CSensor_disable_automatic_self_calibration_def lib_call_def time_sleep_def Let_def)

lemma shtc3_initialize_world:
  "prefix w (snd (snd (SHTC3Sensor_initialize d s w)))"
  by (simp add: SHTC3Sensor_initialize_def lib_call_def)

lemma sps30_initialize_world:
  "prefix w (snd (snd (SPS30Sensor_initialize d n s w)))"
  by (simp add: SPS30Sensor_initialize_def lib_call_def time_sleep_def Let_def
           split: sum.splits)

lemma on_stc31c_frame:
  assumes "on_stc31c f m w = (r, m1, w1)" and "\<And>s. prefix w (snd (snd (f s w)))"
  shows "enable_shtc3 m1 = enable_shtc3 m \<and> shtc3 m1 = shtc3 m \<and> prefix w w1"
proof (cases "stc31c m")
  case None
  with assms(1) show ?thesis by (simp add: on_stc31c_def)
next
  case (Some s)
  obtain r' s' w' where i: "f s w = (r', s', w')" by (cases "f s w")
  with assms(2) [of s] have "prefix w w'" by simp
  with assms(1) Some i show ?thesis by (auto simp: on_stc31c_def)
qed

lemma on_shtc3_frame:
  assumes "on_shtc3 f m w = (r, m1, w1)" and "\<And>s. prefix w (snd (snd (f s w)))"
  shows "enable_shtc3 m1 = enable_shtc3 m \<and> (shtc3 m \<noteq> None \<longrightarrow> shtc3 m1 \<noteq> None) \<and> prefix w w1"
proof (cases "shtc3 m")
  case None
  with assms(1) show ?thesis by (simp add: on_shtc3_def)
next
  case (Some s)
  obtain r' s' w' where i: "f s w = (r', s', w')" by (cases "f s w")
  with assms(2) [of s] have "prefix w w'" by simp
  with assms(1) Some i show ?thesis by (auto simp: on_shtc3_def)
qed

lemma on_sps30_frame:
  assumes "on_sps30 f m w = (r, m1, w1)" and "\<And>s. prefix w (snd (snd (f s w)))"
  shows "enable_shtc3 m1 = enable_shtc3 m \<and> shtc3 m1 = shtc3 m \<and> prefix w w1"
proof (cases "sps30 m")
  case None
  with assms(1) show ?thesis by (simp add: on_sps30_def)
next
  case (Some s)
  obtain r' s' w' where i: "f s w = (r', s', w')" by (cases "f s w")
  with assms(2) [of s] have "prefix w w'" by simp
  with assms(1) Some i show ?thesis by (auto simp: on_sps30_def)
qed

lemma init_sensors_frame:
  assumes "init_sensors d m w = (r, m1, w1)"
  shows "enable_shtc3 m1 = enable_shtc3 m \<and> (shtc3 m \<noteq> None \<longrightarrow> shtc3 m1 \<noteq> None) \<and> prefix w w1"
proof -
  let ?A = "if enable_stc31c m then on_stc31c (STC31CSensor_initialize d) m w else (Inr (), m, w)"
  obtain ra ma wa where A: "?A = (ra, ma, wa)" by (cases ?A)
  have fa: "enable_shtc3 ma = enable_shtc3 m \<and> shtc3 ma = shtc3 m \<and> prefix w wa"
    using A on_stc31c_frame [of "STC31CSensor_initialize d" m w ra ma wa] stc31c_initialize_world
    by (cases "enable_stc31c m") auto
  show ?thesis
  proof (cases ra)
    case (Inl e)
    with A assms have "m1 = ma \<and> w1 = wa" by (simp add: init_sensors_def)
    with fa show ?thesis by simp
  next
    case (Inr u)
    let ?B = "if enable_shtc3 ma then on_shtc3 (SHTC3Sensor_initialize d) ma wa
              else (Inr (), ma, wa)"
    obtain rb mb wb where B: "?B = (rb, mb, wb)" by (cases ?B)
    have fb: "enable_shtc3 mb = enable_shtc3 ma \<and> (shtc3 ma \<noteq> None \<longrightarrow> shtc3 mb \<noteq> None)
              \<and> prefix wa wb"
      using B on_shtc3_frame [of "SHTC3Sensor_initialize d" ma wa rb mb wb] shtc3_initialize_world
      by (cases "enable_shtc3 ma") auto
    show ?thesis
    proof (cases rb)
      case (Inl e)
      with A B Inr assms have "m1 = mb \<and> w1 = wb" by (simp add: init_sensors_def)
      with fa fb show ?thesis by auto
    next
      case (Inr u')
      let ?C = "if enable_sps30 mb then on_sps30 (SPS30Sensor_initialize d 4) mb wb
                else (Inr (), mb, wb)"
      from A B \<open>ra = Inr u\<close> Inr assms have C: "?C = (r, m1, w1)"
        by (simp add: init_sensors_def)
      have fc: "enable_shtc3 m1 = enable_shtc3 mb \<and> shtc3 m1 = shtc3 mb \<and> prefix wb w1"
        using C on_sps30_frame [of "SPS30Sensor_initialize d 4" mb wb r m1 w1]
              sps30_initialize_world
        by (cases "enable_sps30 mb") auto
      from fa fb fc show ?thesis by auto
    qed
  qed
qed

lemma shutdown_frame:
  assumes "SensorManager_shutdown d m w = (m1, w1)"
  shows "enable_shtc3 m1 = enable_shtc3 m \<and> shtc3 m1 = shtc3 m \<and> prefix w w1"
  using assms
  by (auto simp: SensorManager_shutdown_def SPS30Sensor_stop_measurement_def
        SPS30Sensor_close_def lib_call_def logger_def Let_def
        split: option.splits if_splits)

text \<open>
  Claim C3: constructing the manager with the CO2 sensor enabled and the
  temperature/humidity sensor disabled leaves the temperature/humidity flag set and
  its sensor object created, whether construction returns or raises, and the first
  thing it does is to emit a log record about the override (at level \<^verbatim>\<open>ERROR\<close>). With
  any other combination of the two flags the dependency check emits nothing.
\<close>

theorem co2_forces_temp_humidity:
  "(case SensorManager_init d cal True False e3 w of
      (r, m, w') \<Rightarrow>
        enable_shtc3 m \<and> shtc3 m \<noteq> None \<and>
        prefix (w @ [Log ERROR
           ''STC31C sensor requires SHTC3 data. Enabling SHTC3 sensor automatically.'' []]) w')
   \<and> (\<not> (e1 \<and> \<not> e2) \<longrightarrow> snd (SensorManager_fields cal e1 e2 e3 w) = w)"
proof -
  let ?msg = "''STC31C sensor requires SHTC3 data. Enabling SHTC3 sensor automatically.''"
  obtain m0 w0 where f: "SensorManager_fields cal True False e3 w = (m0, w0)"
    by (cases "SensorManager_fields cal True False e3 w")
  then have f0: "enable_shtc3 m0 \<and> shtc3 m0 \<noteq> None \<and> w0 = w @ [Log ERROR ?msg []]"
    by (auto simp: SensorManager_fields_def logger_def)
  obtain r m1 w1 where i: "init_sensors d m0 w0 = (r, m1, w1)"
    by (cases "init_sensors d m0 w0")
  from init_sensors_frame [OF i] f0
  have f1: "enable_shtc3 m1 \<and> shtc3 m1 \<noteq> None \<and> prefix (w @ [Log ERROR ?msg []]) w1"
    by simp
  obtain m2 w2 where s: "SensorManager_shutdown d m1 w1 = (m2, w2)"
    by (cases "SensorManager_shutdown d m1 w1")
  from shutdown_frame [OF s] f1
  have f2: "enable_shtc3 m2 \<and> shtc3 m2 \<noteq> None \<and> prefix (w @ [Log ERROR ?msg []]) w2"
    by auto
  have "case SensorManager_init d cal True False e3 w of
      (r, m, w') \<Rightarrow>
        enable_shtc3 m \<and> shtc3 m \<noteq> None \<and> prefix (w @ [Log ERROR ?msg []]) w'"
    using f i s f1 f2 by (cases r) (auto simp: SensorManager_init_def)
  moreover have "\<not> (e1 \<and> \<not> e2) \<longrightarrow> snd (SensorManager_fields cal e1 e2 e3 w) = w"
    by (auto simp: SensorManager_fields_def)
  ultimately show ?thesis by simp
qed

theorem co2_forces_temp_humidity_witness:
  "(case SensorManager_init (bench_driver all_ok 2) False True False True [] of
      (r, m, w') \<Rightarrow>
        enable_shtc3 m \<and> shtc3 m \<noteq> None \<and>
        prefix [Log ERROR
           ''STC31C sensor requires SHTC3 data. Enabling SHTC3 sensor automatically.'' []] w')
   \<and> snd (SensorManager_fields False True True True []) = []"
  using co2_forces_temp_humidity
          [where d = "bench_driver all_ok 2" and cal = False and ?e3.0 = True and w = "[]"
             and ?e1.0 = True and ?e2.0 = True]
  by simp

subsection \<open>Faults during a bulk read\<close>

text \<open>
  Claim C1 says that \<^verbatim>\<open>read_all\<close> isolates the fault of one sensor: when the read
  of the CO2 sensor raises \<^verbatim>\<open>ReadError\<close>, \<^verbatim>\<open>read_all\<close> returns the entries of the other
  sensors. The method has no handler. On a manager constructed with all three
  sensors, with a driver whose gas measurement returns status 1, \<^verbatim>\<open>read_all\<close> raises
  that \<^verbatim>\<open>ReadError\<close> and returns no readings at all.
\<close>

theorem read_all_propagates_co2_read_error:
  "(case SensorManager_init (bench_driver all_ok 2) False True True True [] of
      (r, m, w) \<Rightarrow>
        r = Inr () \<and>
        fst (SensorManager_read_all
               (bench_driver (failing stc3x_measure_gas_concentration 1) 2) m w) =
          Inl (ReadError ''STC31-C'' ''Failed to read gas concentration'' (Some 1)
                [(''operation'', DStr ''stc3x_measure_gas_concentration'')]))"
  by (simp add: SensorManager_init_def SensorManager_fields_def
        init_sensors_def on_stc31c_def on_shtc3_def on_sps30_def
        STC31CSensor_initialize_def STC31CSensor_disable_automatic_self_calibration_def
        STC31CSensor_new_def SHTC3Sensor_initialize_def SHTC3Sensor_new_def
        SPS30Sensor_initialize_def SPS30Sensor_new_def lib_call_def time_sleep_def
        bench_driver_def failing_def all_ok_def ctypes_int_convertible_def
        bytes_decode_def c_char_array_value_def SPS30_MAX_SERIAL_LEN_def
        SensorManager_read_all_def read_all_stc31c_def read_all_sps30_def truthy_def
        SHTC3Sensor_read_def measure_call_def STC31CSensor_read_def SPS30Sensor_read_def)

end
